theory Spec2Isabelle
  imports Complex_Main
begin

section \<open>Python values\<close>

text \<open>
  The exceptions the pipeline can end with. No function of the repository catches an
  exception, so each of them ends the run. \<open>LiteralEvalError\<close> stands for whatever
  \<^verbatim>\<open>ast.literal_eval\<close> raises, \<open>CompletionError\<close> for whatever the completion call of the
  OpenAI client raises, \<open>EmbeddingError\<close> for whatever the sentence-embedding library raises,
  \<open>ReadCsvError\<close> for whatever \<^verbatim>\<open>pandas.read_csv\<close> raises.
\<close>

datatype error =
    KeyError
  | IndexError
  | TypeError
  | LiteralEvalError
  | CompletionError
  | EmbeddingError
  | ReadCsvError

definition and_then :: "error + 'a \<Rightarrow> ('a \<Rightarrow> error + 'b) \<Rightarrow> error + 'b" where
  "and_then r f = (case r of Inl e \<Rightarrow> Inl e | Inr x \<Rightarrow> f x)"

text \<open>
  A Python float: a finite float is held as the real number it is, next to the two infinities
  and NaN. \<open>float_ge\<close> is the comparison \<^verbatim>\<open>a >= b\<close> of two floats: false as soon as
  one side is NaN, the order of the numbers on two finite floats.
\<close>

datatype pyfloat = Finite real | PosInf | NegInf | NaN

fun float_ge :: "pyfloat \<Rightarrow> pyfloat \<Rightarrow> bool" where
  "float_ge NaN b = False"
| "float_ge a NaN = False"
| "float_ge PosInf b = True"
| "float_ge a NegInf = True"
| "float_ge (Finite a) (Finite b) = (b \<le> a)"
| "float_ge a b = False"

text \<open>
  A decimal literal of the source denotes the double nearest to it. The literal \<^verbatim>\<open>0.85\<close> is
  not a double: Python reads it as \<open>7656119366529843 / 2^53\<close>, which is a little less than
  the decimal (\<^verbatim>\<open>(0.85).as_integer_ratio()\<close> is this fraction).
\<close>

definition float_0_85 :: real where
  "float_0_85 = 7656119366529843 / 9007199254740992"

text \<open>
  The values \<^verbatim>\<open>ast.literal_eval\<close> can return. A tuple and a set are held as the list of
  their elements, a dict as the list of its items in insertion order (a dict has no two equal
  keys, so a lookup finds at most one item), bytes as the list of their values.
\<close>

datatype pyval =
    PNone
  | PEllipsis
  | PBool bool
  | PInt int
  | PFloat pyfloat
  | PComplex pyfloat pyfloat
  | PStr string
  | PBytes "nat list"
  | PList "pyval list"
  | PTuple "pyval list"
  | PSet "pyval list"
  | PDict "(pyval \<times> pyval) list"

text \<open>
  \<^verbatim>\<open>obj[key]\<close> for a key that is a \<^verbatim>\<open>str\<close>. Only a dict accepts such a key, and among
  the keys of a dict only a \<^verbatim>\<open>str\<close> with the same characters is equal to it; every
  other object raises \<^verbatim>\<open>TypeError\<close> (a sequence wants an integer index, the rest is not
  subscriptable).
\<close>

fun getitem_str :: "pyval \<Rightarrow> string \<Rightarrow> error + pyval" where
  "getitem_str (PDict items) key =
     (case map_of items (PStr key) of None \<Rightarrow> Inl KeyError | Some v \<Rightarrow> Inr v)"
| "getitem_str obj key = Inl TypeError"

text \<open>
  \<^verbatim>\<open>seq[i]\<close> on a sequence: a negative index counts from the end, an index out of range
  raises \<^verbatim>\<open>IndexError\<close>.
\<close>

definition seq_index :: "'a list \<Rightarrow> int \<Rightarrow> error + 'a" where
  "seq_index xs i =
     (let n = int (length xs); j = (if i < 0 then i + n else i)
      in if 0 \<le> j \<and> j < n then Inr (xs ! nat j) else Inl IndexError)"

text \<open>
  The dict keys that are equal to the integer \<open>i\<close> (and hash like it): the integer itself,
  the boolean, float or complex number of the same value.
\<close>

fun int_key_eq :: "int \<Rightarrow> pyval \<Rightarrow> bool" where
  "int_key_eq i (PInt j) = (i = j)"
| "int_key_eq i (PBool b) = (i = (if b then 1 else 0))"
| "int_key_eq i (PFloat (Finite x)) = (x = of_int i)"
| "int_key_eq i (PComplex (Finite x) (Finite y)) = (x = of_int i \<and> y = 0)"
| "int_key_eq i k = False"

text \<open>\<^verbatim>\<open>obj[i]\<close> for an integer \<open>i\<close>.\<close>

fun getitem_int :: "pyval \<Rightarrow> int \<Rightarrow> error + pyval" where
  "getitem_int (PList xs) i = seq_index xs i"
| "getitem_int (PTuple xs) i = seq_index xs i"
| "getitem_int (PStr s) i = and_then (seq_index s i) (\<lambda>c. Inr (PStr [c]))"
| "getitem_int (PBytes bs) i = and_then (seq_index bs i) (\<lambda>b. Inr (PInt (int b)))"
| "getitem_int (PDict items) i =
     (case find (\<lambda>item. int_key_eq i (fst item)) items of
        None \<Rightarrow> Inl KeyError
      | Some item \<Rightarrow> Inr (snd item))"
| "getitem_int obj i = Inl TypeError"

section \<open>The input table\<close>

text \<open>
  \<^verbatim>\<open>input_data.load_data\<close> returns what \<^verbatim>\<open>pandas.read_csv\<close> reads: a table whose rows are
  labelled 0, 1, 2, ... in file order. The table is held as the list of its rows, each row
  with the three columns the pipeline reads. \<^verbatim>\<open>df.loc[0, col]\<close> and \<^verbatim>\<open>df[col][0]\<close> both
  look the label 0 up and raise \<^verbatim>\<open>KeyError\<close> when the table has no row.
\<close>

record row =
  col_review :: string
  col_true_entity :: string
  col_true_aspect :: string

type_synonym dataframe = "row list"

definition at_label_0 :: "dataframe \<Rightarrow> (row \<Rightarrow> 'a) \<Rightarrow> error + 'a" where
  "at_label_0 df col = (case df of [] \<Rightarrow> Inl KeyError | r # rest \<Rightarrow> Inr (col r))"

section \<open>The completion client (helper_funcs.py)\<close>

record message =
  role :: string
  content :: string

datatype ResponseFormat = TEXT | JSON_OBJECT

fun ResponseFormat_value :: "ResponseFormat \<Rightarrow> (string \<times> string) list" where
  "ResponseFormat_value TEXT = [(''type'', ''text'')]"
| "ResponseFormat_value JSON_OBJECT = [(''type'', ''json_object'')]"

text \<open>
  The keyword arguments of \<^verbatim>\<open>client.chat.completions.create\<close>, and the part of its answer
  that is read: \<^verbatim>\<open>response.choices[i].message.content\<close>.
\<close>

record request =
  req_messages :: "message list"
  req_model :: string
  req_frequency_penalty :: pyfloat
  req_n :: int
  req_temperature :: pyfloat
  req_response_format :: "(string \<times> string) list"

record choice =
  choice_message :: message

record response =
  choices :: "choice list"

text \<open>
  What the program calls but does not define: the completion endpoint, Python's
  \<^verbatim>\<open>ast.literal_eval\<close>, \<^verbatim>\<open>pandas.read_csv\<close>, and the sentence-embedding model with its
  cosine-similarity function. They are parameters of the model; \<open>None\<close> is a call that
  raises. A tensor is a matrix, held as the list of its rows.
\<close>

type_synonym tensor = "pyfloat list list"

record backend =
  create :: "request \<Rightarrow> response option"
  literal_eval :: "string \<Rightarrow> pyval option"
  read_csv :: "string \<Rightarrow> dataframe option"
  encode :: "pyval list \<Rightarrow> tensor option"
  cos_sim :: "tensor \<Rightarrow> tensor \<Rightarrow> tensor option"

text \<open>
  \<^verbatim>\<open>get_completion_from_messages\<close>. A keyword argument left out is \<open>None\<close> and takes the
  default of the signature. The requests issued to the endpoint so far are threaded through
  as a list, so that each call of \<open>create\<close> is visible in it.
\<close>

definition get_completion_from_messages ::
  "backend \<Rightarrow> message list \<Rightarrow> string option \<Rightarrow> pyfloat option \<Rightarrow> int option \<Rightarrow>
   pyfloat option \<Rightarrow> ResponseFormat option \<Rightarrow> request list \<Rightarrow> (error + string) \<times> request list" where
  "get_completion_from_messages be msgs model frequency_penalty n temperature response_format sent =
     (let req = \<lparr>req_messages = msgs,
                 req_model = (case model of None \<Rightarrow> ''gpt-3.5-turbo-1106'' | Some m \<Rightarrow> m),
                 req_frequency_penalty =
                   (case frequency_penalty of None \<Rightarrow> Finite 0 | Some p \<Rightarrow> p),
                 req_n = (case n of None \<Rightarrow> 1 | Some k \<Rightarrow> k),
                 req_temperature = (case temperature of None \<Rightarrow> Finite 0 | Some t \<Rightarrow> t),
                 req_response_format =
                   ResponseFormat_value
                     (case response_format of None \<Rightarrow> TEXT | Some f \<Rightarrow> f)\<rparr>
      in case create be req of
           None \<Rightarrow> (Inl CompletionError, sent @ [req])
         | Some resp \<Rightarrow>
             (and_then (seq_index (choices resp) 0) (\<lambda>c. Inr (content (choice_message c))),
              sent @ [req]))"

section \<open>The extraction stage (model_entity_aspect_generation.py)\<close>

text \<open>
  The five fixed strings of \<^verbatim>\<open>order_chat_messages\<close>, character for character as Python
  reads the triple-quoted literals, one line of the value per line here: a backslash at the
  end of a source line joins it to the next one, the indentation belongs to the string.
\<close>

definition system_prompt :: string where
  \<open>system_prompt =
     ''\<newline>'' @
     ''        You are an NLP customer review analyzer who knows how to find what named entity the review         is addressing and the aspect/opinion about this named entity. \<newline>'' @
     ''        ''\<close>

definition initial_user_prompt :: string where
  \<open>initial_user_prompt =
     ''\<newline>'' @
     ''        Your task is to extract both the entity and aspect/opinion that are literally mentioned in the review. /\<newline>'' @
     ''    \<newline>'' @
     ''        Pay attention to the following (important):\<newline>'' @
     ''        - The entity and aspect/opinion MUST be explicitly mentioned in the review. Do NOT infer by yourself.\<newline>'' @
     ''        - The entity can be more than one word long (e.g., "Chinese restaurant")\<newline>'' @
     ''        - The aspect/opinion can be more than one word long (e.g., "delicious and fantastic", "amazingly good")\<newline>'' @
     ''        - There could be more than one entity-aspect pair in the same review (e.g., "The pizza was terrific but the music was bad" -> {pizza: terrific, music: bad})\<newline>'' @
     ''        - If you can't find the entity or aspect/opinion, return "None".\<newline>'' @
     ''        - The review can be a full sentence but could also simply be a phrase or utterance.\<newline>'' @
     ''        - Return the response in the following JSON format: {incremental number: {"named_entity": str, "aspect": List[str]}\<newline>'' @
     ''    \<newline>'' @
     ''        Entity - what it is that the customer is referring to in his/her review (e.g., "Chinese restaurant", "service", "meal", "waitress", "food").\<newline>'' @
     ''        Aspect (opinion) - how the entity is described by the customer (e.g., "great", "amazing", "took too much time to prepare", "patient", "superb").\<newline>'' @
     ''        ''\<close>

definition assistant_res_1 :: string where
  \<open>assistant_res_1 =
     ''\<newline>'' @
     ''        I acknowledge that I am a customer review analyzer who knows how to find search review for and find         both the named entity mentioned in the review and the aspect/opinion addressed to the named entity.         I understand your request and will accordingly look for and find both the named entity and the aspect/opinion\<newline>'' @
     ''        ''\<close>

definition user_clarification_prompt :: string where
  \<open>user_clarification_prompt =
     ''\<newline>'' @
     ''        Below are a few examples for you to learn from (few-shot learning):\<newline>'' @
     ''        "The food is decent" --> food (entity), decent (aspect)\<newline>'' @
     ''        "The Steak Tartare was splendid" --> Steak Tartare (entity), splendid (aspect)\<newline>'' @
     ''        "The service is top-notch" --> service (entity), top-notch (aspect)\<newline>'' @
     ''        "I had the duck breast special on my last visit and it was incredible." --> duck breast special (entity), incredible (aspect)\<newline>'' @
     ''        "The hostess was extremely rude and offensive" --> hostess (entity), extremely rude and offensive (aspect)\<newline>'' @
     ''        "Chow fun was dry ; pork shu mai was more than usually greasy and had to share a table with loud and rude family." --> Chow fun (entity), dry (aspect); pork shu mai (entity), more than usually greasy (aspect); table (entity), had to share with loud and rude family (aspect)  \<newline>'' @
     ''        "The waiter took his time with the food" --> waiter (entity), took his time with the food (aspect)\<newline>'' @
     ''        "Ambience is delightful, service impeccable." --> ambience (entity), delightful (aspect); service (entity) impeccable (aspect)\<newline>'' @
     ''        "I won't come back again" --> None (entity), None (aspect)\<newline>'' @
     ''        "We, there were four of us, arrived at noon - the place was empty - and the staff acted like we were imposing on them and they were very rude." --> place (entity), empty (aspect); staff (entity) acted like we were imposing on them (aspect); staff (entity) very rude (aspect)\<newline>'' @
     ''        The food is very average . . .the Thai fusion stuff is a bit too sweet , every thing they serve is too sweet here. --> food (entity), very average (aspect); Thai fusion stuff (entity), a bit too sweet (aspect); everything they serve (entity), too sweet (aspect);\<newline>'' @
     ''        The only thing I moderately enjoyed was their Grilled Chicken special with Edamame Puree. --> Grilled Chicken special with Edamame Puree (entity), moderately enjoyed (aspect);\<newline>'' @
     ''        ''\<close>

definition assistant_res_2 :: string where
  \<open>assistant_res_2 =
     ''\<newline>'' @
     ''        Please provide the review you want me to analyze.\<newline>'' @
     ''        ''\<close>

text \<open>
  The object, with the fields \<^verbatim>\<open>__init__\<close> sets. A field that refers to another object
  holds that object; \<open>generation\<close> is a tuple, held as the list of its components.
\<close>

record ModelEntityAspectGeneration =
  df :: dataframe
  review :: string
  messages :: "message list"
  review_analysis :: pyval
  true_entity :: "pyval list"
  true_aspect :: "pyval list"
  predicted_entity :: "pyval list"
  predicted_aspect :: "pyval list"
  generation :: "pyval list"

text \<open>
  A method takes \<open>self\<close> and returns it updated, or the exception it raised. A method that
  talks to the completion endpoint also takes and returns the list of requests issued.
\<close>

definition order_chat_messages ::
  "backend \<Rightarrow> ModelEntityAspectGeneration \<Rightarrow> request list \<Rightarrow>
   (error + ModelEntityAspectGeneration) \<times> request list" where
  "order_chat_messages be self sent =
     (case at_label_0 (df self) col_review of
        Inl e \<Rightarrow> (Inl e, sent)
      | Inr cell \<Rightarrow>
          (let self1 = self\<lparr>review := ''\<newline>        '' @ cell @ ''\<newline>        ''\<rparr>;
               self2 = self1\<lparr>messages :=
                 [\<lparr>role = ''system'', content = system_prompt\<rparr>,
                  \<lparr>role = ''user'', content = initial_user_prompt\<rparr>,
                  \<lparr>role = ''assistant'', content = assistant_res_1\<rparr>,
                  \<lparr>role = ''user'', content = user_clarification_prompt\<rparr>,
                  \<lparr>role = ''assistant'', content = assistant_res_2\<rparr>,
                  \<lparr>role = ''user'', content = review self1\<rparr>]\<rparr>
           in case get_completion_from_messages be (messages self2) None None None None
                     (Some JSON_OBJECT) sent of
                (Inl e, sent') \<Rightarrow> (Inl e, sent')
              | (Inr text, sent') \<Rightarrow>
                  (case literal_eval be text of
                     None \<Rightarrow> (Inl LiteralEvalError, sent')
                   | Some v \<Rightarrow> (Inr (self2\<lparr>review_analysis := v\<rparr>), sent'))))"

definition extract_true_val ::
  "ModelEntityAspectGeneration \<Rightarrow> error + ModelEntityAspectGeneration" where
  "extract_true_val self =
     and_then (at_label_0 (df self) col_true_entity) (\<lambda>e.
       let self1 = self\<lparr>true_entity := [PStr e]\<rparr>
       in and_then (at_label_0 (df self1) col_true_aspect) (\<lambda>a.
            Inr (self1\<lparr>true_aspect := [PStr a]\<rparr>)))"

definition extract_tuple ::
  "ModelEntityAspectGeneration \<Rightarrow> error + ModelEntityAspectGeneration" where
  "extract_tuple self =
     and_then (getitem_str (review_analysis self) ''1'') (\<lambda>entry.
     and_then (getitem_str entry ''named_entity'') (\<lambda>predicted_entity_val.
     and_then (getitem_str (review_analysis self) ''1'') (\<lambda>entry'.
     and_then (getitem_str entry' ''aspect'') (\<lambda>aspects.
     and_then (getitem_int aspects 0) (\<lambda>predicted_aspect_val.
       Inr (self\<lparr>generation := [predicted_entity_val, predicted_aspect_val],
                  predicted_entity := [predicted_entity_val],
                  predicted_aspect := [predicted_aspect_val]\<rparr>))))))"

definition ModelEntityAspectGeneration_init ::
  "backend \<Rightarrow> dataframe \<Rightarrow> request list \<Rightarrow>
   (error + ModelEntityAspectGeneration) \<times> request list" where
  "ModelEntityAspectGeneration_init be table sent =
     (let self = \<lparr>df = table, review = [], messages = [], review_analysis = PDict [],
                  true_entity = [], true_aspect = [], predicted_entity = [],
                  predicted_aspect = [], generation = []\<rparr>
      in case order_chat_messages be self sent of
           (Inl e, sent') \<Rightarrow> (Inl e, sent')
         | (Inr self1, sent') \<Rightarrow>
             (and_then (extract_true_val self1) extract_tuple, sent'))"

section \<open>The evaluation stage (model_evaluation.py)\<close>

record ModelEvaluation =
  ev_df :: dataframe
  model_gen_object :: ModelEntityAspectGeneration
  threshold :: pyfloat
  entity_cosine_score :: pyfloat
  aspect_cosine_score :: pyfloat
  keep_entity_prediction :: "bool option"
  keep_aspect_prediction :: "bool option"

text \<open>
  \<^verbatim>\<open>cosine_scores_tensor[0, 0].item()\<close>: the entry in row 0, column 0 of the matrix.
\<close>

definition item_0_0 :: "tensor \<Rightarrow> error + pyfloat" where
  "item_0_0 t = and_then (seq_index t 0) (\<lambda>row0. seq_index row0 0)"

definition extract_cosine_score ::
  "backend \<Rightarrow> pyval list \<Rightarrow> pyval list \<Rightarrow> error + pyfloat" where
  "extract_cosine_score be true_val predicted_val =
     (case encode be true_val of
        None \<Rightarrow> Inl EmbeddingError
      | Some embeddings_true \<Rightarrow>
          (case encode be predicted_val of
             None \<Rightarrow> Inl EmbeddingError
           | Some embeddings_pred \<Rightarrow>
               (case cos_sim be embeddings_true embeddings_pred of
                  None \<Rightarrow> Inl EmbeddingError
                | Some cosine_scores_tensor \<Rightarrow> item_0_0 cosine_scores_tensor)))"

definition invoke_extract_cosine_score_logic ::
  "backend \<Rightarrow> ModelEvaluation \<Rightarrow> error + ModelEvaluation" where
  "invoke_extract_cosine_score_logic be self =
     and_then (extract_cosine_score be (true_entity (model_gen_object self))
                 (predicted_entity (model_gen_object self))) (\<lambda>s.
       let self1 = self\<lparr>entity_cosine_score := s\<rparr>
       in and_then (extract_cosine_score be (true_aspect (model_gen_object self1))
                      (predicted_aspect (model_gen_object self1))) (\<lambda>a.
            Inr (self1\<lparr>aspect_cosine_score := a\<rparr>)))"

definition evaluate :: "ModelEvaluation \<Rightarrow> pyfloat \<Rightarrow> bool" where
  "evaluate self cosine_score =
     (if float_ge cosine_score (threshold self) then True else False)"

definition invoke_evaluation_logic :: "ModelEvaluation \<Rightarrow> ModelEvaluation" where
  "invoke_evaluation_logic self =
     (let self1 = self\<lparr>keep_entity_prediction := Some (evaluate self (entity_cosine_score self))\<rparr>
      in self1\<lparr>keep_aspect_prediction := Some (evaluate self1 (aspect_cosine_score self1))\<rparr>)"

text \<open>
  The constructor; \<open>threshold_score\<close> is \<open>None\<close> when the caller leaves it out and is then the
  float of the literal \<^verbatim>\<open>0.85\<close> in the signature.
  \<^verbatim>\<open>keep_entity_prediction\<close> and \<^verbatim>\<open>keep_aspect_prediction\<close> start as Python's \<^verbatim>\<open>None\<close>.
\<close>

definition ModelEvaluation_init ::
  "backend \<Rightarrow> dataframe \<Rightarrow> ModelEntityAspectGeneration \<Rightarrow> pyfloat option \<Rightarrow>
   error + ModelEvaluation" where
  "ModelEvaluation_init be table gen_object threshold_score =
     (let self = \<lparr>ev_df = table, model_gen_object = gen_object,
                  threshold = (case threshold_score of None \<Rightarrow> Finite float_0_85 | Some t \<Rightarrow> t),
                  entity_cosine_score = Finite 0, aspect_cosine_score = Finite 0,
                  keep_entity_prediction = None, keep_aspect_prediction = None\<rparr>
      in and_then (invoke_extract_cosine_score_logic be self) (\<lambda>self1.
           Inr (invoke_evaluation_logic self1)))"

section \<open>The orchestrator (main.py)\<close>

definition load_data :: "backend \<Rightarrow> string \<Rightarrow> error + dataframe" where
  "load_data be path =
     (case read_csv be path of None \<Rightarrow> Inl ReadCsvError | Some data_df \<Rightarrow> Inr data_df)"

definition flow :: "backend \<Rightarrow> request list \<Rightarrow> (error + ModelEvaluation) \<times> request list" where
  "flow be sent =
     (case load_data be ''sample_review.csv'' of
        Inl e \<Rightarrow> (Inl e, sent)
      | Inr table \<Rightarrow>
          (case ModelEntityAspectGeneration_init be table sent of
             (Inl e, sent') \<Rightarrow> (Inl e, sent')
           | (Inr model_gen_obj, sent') \<Rightarrow>
               (ModelEvaluation_init be table model_gen_obj None, sent')))"

section \<open>Named parts of the extraction stage\<close>

text \<open>
  What \<^verbatim>\<open>order_chat_messages\<close> computes from the review cell of row 0, given names so that
  statements can refer to it: the review text, the transcript, and the request that reaches
  the endpoint. \<open>order_chat_messages_row0\<close> below shows that they are what the method builds.
\<close>

definition review_text :: "string \<Rightarrow> string" where
  "review_text cell = ''\<newline>        '' @ cell @ ''\<newline>        ''"

definition transcript :: "string \<Rightarrow> message list" where
  "transcript cell =
     [\<lparr>role = ''system'', content = system_prompt\<rparr>,
      \<lparr>role = ''user'', content = initial_user_prompt\<rparr>,
      \<lparr>role = ''assistant'', content = assistant_res_1\<rparr>,
      \<lparr>role = ''user'', content = user_clarification_prompt\<rparr>,
      \<lparr>role = ''assistant'', content = assistant_res_2\<rparr>,
      \<lparr>role = ''user'', content = review_text cell\<rparr>]"

definition extraction_request :: "string \<Rightarrow> request" where
  "extraction_request cell =
     \<lparr>req_messages = transcript cell, req_model = ''gpt-3.5-turbo-1106'',
      req_frequency_penalty = Finite 0, req_n = 1, req_temperature = Finite 0,
      req_response_format = [(''type'', ''json_object'')]\<rparr>"

text \<open>
  Each few-shot example of the fourth message is one line of the form
  \<^verbatim>\<open>review --> labels\<close>, so the examples are counted by their arrows:
  \<open>count_occurrences pat s\<close> is the number of positions of \<open>s\<close> where \<open>pat\<close> starts.
\<close>

fun starts_with :: "string \<Rightarrow> string \<Rightarrow> bool" where
  "starts_with [] s = True"
| "starts_with (p # ps) [] = False"
| "starts_with (p # ps) (c # cs) = (p = c \<and> starts_with ps cs)"

fun count_occurrences :: "string \<Rightarrow> string \<Rightarrow> nat" where
  "count_occurrences pat [] = 0"
| "count_occurrences pat (c # cs) =
     (if starts_with pat (c # cs) then 1 else 0) + count_occurrences pat cs"

section \<open>A deterministic backend for the examples\<close>

text \<open>
  The end-to-end scenario of the specification: one review, "The food is decent", with the
  true entity "food" and the true aspect "decent", followed by a second row that the
  pipeline must not read; a completion that answers with two pairs; a stand-in parser that
  knows this one text; and a stand-in embedding that gives equal strings the similarity 1
  and different ones a negative similarity.
\<close>

definition example_row :: row where
  "example_row = \<lparr>col_review = ''The food is decent'', col_true_entity = ''food'',
                   col_true_aspect = ''decent''\<rparr>"

definition other_row :: row where
  "other_row = \<lparr>col_review = ''The service is top-notch'', col_true_entity = ''service'',
                 col_true_aspect = ''top-notch''\<rparr>"

definition example_completion :: string where
  \<open>example_completion =
     ''{"1": {"named_entity": "food", "aspect": ["decent", "fresh"]}, "2": {"named_entity": "music", "aspect": ["bad"]}}''\<close>

definition example_analysis :: pyval where
  "example_analysis =
     PDict [(PStr ''1'', PDict [(PStr ''named_entity'', PStr ''food''),
                               (PStr ''aspect'', PList [PStr ''decent'', PStr ''fresh''])]),
            (PStr ''2'', PDict [(PStr ''named_entity'', PStr ''music''),
                               (PStr ''aspect'', PList [PStr ''bad''])])]"

definition mock_response :: response where
  "mock_response =
     \<lparr>choices = [\<lparr>choice_message = \<lparr>role = ''assistant'', content = example_completion\<rparr>\<rparr>]\<rparr>"

definition mock_create :: "request \<Rightarrow> response option" where
  "mock_create req = Some mock_response"

definition mock_literal_eval :: "string \<Rightarrow> pyval option" where
  "mock_literal_eval text = (if text = example_completion then Some example_analysis else None)"

definition mock_read_csv :: "string \<Rightarrow> dataframe option" where
  "mock_read_csv path =
     (if path = ''sample_review.csv'' then Some [example_row, other_row] else None)"

definition mock_encode :: "pyval list \<Rightarrow> tensor option" where
  "mock_encode sentences =
     Some (map (\<lambda>v. case v of PStr s \<Rightarrow> [Finite (real (length s)), Finite 1]
                       | _ \<Rightarrow> [Finite 0, Finite 1]) sentences)"

definition mock_cos_sim :: "tensor \<Rightarrow> tensor \<Rightarrow> tensor option" where
  "mock_cos_sim a b =
     Some (map (\<lambda>u. map (\<lambda>v. if u = v then Finite 1 else Finite (- 1 / 4)) b) a)"

definition mock_backend :: backend where
  "mock_backend = \<lparr>create = mock_create, literal_eval = mock_literal_eval,
                    read_csv = mock_read_csv, encode = mock_encode, cos_sim = mock_cos_sim\<rparr>"

text \<open>
  The same backend with another completion: the endpoint answers with the text \<open>text\<close>, and
  the parser reads that text as \<open>parsed\<close> (\<open>None\<close>: it raises). Three completions that do not
  have the expected shape follow.
\<close>

definition backend_answering :: "string \<Rightarrow> pyval option \<Rightarrow> backend" where
  "backend_answering text parsed =
     mock_backend
       \<lparr>create := \<lambda>req. Some \<lparr>choices = [\<lparr>choice_message = \<lparr>role = ''assistant'', content = text\<rparr>\<rparr>]\<rparr>,
        literal_eval := \<lambda>t. if t = text then parsed else None\<rparr>"

definition completion_no_key_1 :: string where
  \<open>completion_no_key_1 = ''{"2": {"named_entity": "music", "aspect": ["bad"]}}''\<close>

definition completion_empty_aspect :: string where
  \<open>completion_empty_aspect = ''{"1": {"named_entity": "food", "aspect": []}}''\<close>

definition completion_no_entity :: string where
  \<open>completion_no_entity = ''{"1": {"aspect": []}}''\<close>

text \<open>The objects the pipeline builds from this backend, written out.\<close>

definition example_table :: dataframe where
  "example_table = [example_row, other_row]"

definition example_gen :: ModelEntityAspectGeneration where
  "example_gen =
     \<lparr>df = example_table, review = review_text ''The food is decent'',
      messages = transcript ''The food is decent'', review_analysis = example_analysis,
      true_entity = [PStr ''food''], true_aspect = [PStr ''decent''],
      predicted_entity = [PStr ''food''], predicted_aspect = [PStr ''decent''],
      generation = [PStr ''food'', PStr ''decent'']\<rparr>"

definition example_ev :: ModelEvaluation where
  "example_ev =
     \<lparr>ev_df = example_table, model_gen_object = example_gen, threshold = Finite float_0_85,
      entity_cosine_score = Finite 1, aspect_cosine_score = Finite 1,
      keep_entity_prediction = Some True, keep_aspect_prediction = Some True\<rparr>"

text \<open>
  A second generation object that differs from \<open>example_gen\<close> in the predicted aspect only,
  and its evaluation.
\<close>

definition example_gen_fresh :: ModelEntityAspectGeneration where
  "example_gen_fresh =
     example_gen\<lparr>predicted_aspect := [PStr ''fresh''],
                  generation := [PStr ''food'', PStr ''fresh'']\<rparr>"

definition example_ev_fresh :: ModelEvaluation where
  "example_ev_fresh =
     \<lparr>ev_df = example_table, model_gen_object = example_gen_fresh, threshold = Finite float_0_85,
      entity_cosine_score = Finite 1, aspect_cosine_score = Finite (- 1 / 4),
      keep_entity_prediction = Some True, keep_aspect_prediction = Some False\<rparr>"

section \<open>Basic facts\<close>

lemma and_then_simps [simp]:
  "and_then (Inl e) f = Inl e"
  "and_then (Inr x) f = f x"
  by (simp_all add: and_then_def)

lemma and_then_eq_Inr:
  "and_then r f = Inr y \<longleftrightarrow> (\<exists>x. r = Inr x \<and> f x = Inr y)"
  by (cases r) simp_all

lemma seq_index_0 [simp]:
  "seq_index [] 0 = Inl IndexError"
  "seq_index (x # xs) 0 = Inr x"
  by (simp_all add: seq_index_def)

lemma item_0_0_eq_Inr:
  "item_0_0 t = Inr x \<longleftrightarrow> t \<noteq> [] \<and> hd t \<noteq> [] \<and> x = hd (hd t)"
proof (cases t)
  case Nil
  then show ?thesis by (simp add: item_0_0_def)
next
  case (Cons row0 rows)
  then show ?thesis by (cases row0) (auto simp: item_0_0_def)
qed

lemma evaluate_eq: "evaluate self cosine_score = float_ge cosine_score (threshold self)"
  by (simp add: evaluate_def)

lemma invoke_evaluation_logic_eq:
  "invoke_evaluation_logic self =
     self\<lparr>keep_entity_prediction := Some (float_ge (entity_cosine_score self) (threshold self)),
          keep_aspect_prediction := Some (float_ge (aspect_cosine_score self) (threshold self))\<rparr>"
  by (simp add: invoke_evaluation_logic_def evaluate_eq Let_def)

lemma invoke_extract_cosine_score_logic_eq_Inr:
  "invoke_extract_cosine_score_logic be self = Inr self' \<longleftrightarrow>
     (\<exists>s a. extract_cosine_score be (true_entity (model_gen_object self))
               (predicted_entity (model_gen_object self)) = Inr s \<and>
            extract_cosine_score be (true_aspect (model_gen_object self))
               (predicted_aspect (model_gen_object self)) = Inr a \<and>
            self' = self\<lparr>entity_cosine_score := s, aspect_cosine_score := a\<rparr>)"
  by (auto simp: invoke_extract_cosine_score_logic_def and_then_eq_Inr Let_def)

lemma ModelEvaluation_init_eq_Inr:
  "ModelEvaluation_init be table g threshold_score = Inr ev \<longleftrightarrow>
     (\<exists>s a. extract_cosine_score be (true_entity g) (predicted_entity g) = Inr s \<and>
            extract_cosine_score be (true_aspect g) (predicted_aspect g) = Inr a \<and>
            ev = \<lparr>ev_df = table, model_gen_object = g,
                  threshold = (case threshold_score of None \<Rightarrow> Finite float_0_85 | Some t \<Rightarrow> t),
                  entity_cosine_score = s, aspect_cosine_score = a,
                  keep_entity_prediction =
                    Some (float_ge s (case threshold_score of None \<Rightarrow> Finite float_0_85 | Some t \<Rightarrow> t)),
                  keep_aspect_prediction =
                    Some (float_ge a (case threshold_score of None \<Rightarrow> Finite float_0_85 | Some t \<Rightarrow> t))\<rparr>)"
  by (auto simp: ModelEvaluation_init_def and_then_eq_Inr Let_def
      invoke_extract_cosine_score_logic_eq_Inr invoke_evaluation_logic_eq)

lemma extract_cosine_score_eq_Inr:
  "extract_cosine_score be true_val predicted_val = Inr x \<longleftrightarrow>
     (\<exists>embeddings_true embeddings_pred m.
        encode be true_val = Some embeddings_true \<and>
        encode be predicted_val = Some embeddings_pred \<and>
        cos_sim be embeddings_true embeddings_pred = Some m \<and>
        m \<noteq> [] \<and> hd m \<noteq> [] \<and> x = hd (hd m))"
  by (auto simp: extract_cosine_score_def item_0_0_eq_Inr split: option.splits)

lemma example_ev_constructed:
  "ModelEvaluation_init mock_backend example_table example_gen None = Inr example_ev"
  by (simp add: ModelEvaluation_init_eq_Inr extract_cosine_score_eq_Inr mock_backend_def
      mock_encode_def mock_cos_sim_def example_gen_def example_ev_def float_0_85_def)

lemma example_ev_fresh_constructed:
  "ModelEvaluation_init mock_backend example_table example_gen_fresh None = Inr example_ev_fresh"
  by (simp add: ModelEvaluation_init_eq_Inr extract_cosine_score_eq_Inr mock_backend_def
      mock_encode_def mock_cos_sim_def example_gen_def example_gen_fresh_def example_ev_fresh_def
      float_0_85_def)

section \<open>The extraction stage, step by step\<close>

lemma order_chat_messages_no_row:
  "df self = [] \<Longrightarrow> order_chat_messages be self sent = (Inl KeyError, sent)"
  by (simp add: order_chat_messages_def at_label_0_def)

lemma get_completion_from_messages_json:
  "get_completion_from_messages be (transcript cell) None None None None (Some JSON_OBJECT) sent =
     (case create be (extraction_request cell) of
        None \<Rightarrow> Inl CompletionError
      | Some resp \<Rightarrow>
          (case choices resp of
             [] \<Rightarrow> Inl IndexError
           | c # cs \<Rightarrow> Inr (content (choice_message c))),
      sent @ [extraction_request cell])"
  by (simp add: get_completion_from_messages_def extraction_request_def Let_def
      split: option.splits list.splits)

lemma order_chat_messages_row0:
  assumes "df self = r # rest"
  shows "order_chat_messages be self sent =
     (case create be (extraction_request (col_review r)) of
        None \<Rightarrow> Inl CompletionError
      | Some resp \<Rightarrow>
          (case choices resp of
             [] \<Rightarrow> Inl IndexError
           | c # cs \<Rightarrow>
               (case literal_eval be (content (choice_message c)) of
                  None \<Rightarrow> Inl LiteralEvalError
                | Some v \<Rightarrow>
                    Inr (self\<lparr>review := review_text (col_review r),
                              messages := transcript (col_review r),
                              review_analysis := v\<rparr>))),
      sent @ [extraction_request (col_review r)])"
  using assms
  by (simp add: order_chat_messages_def at_label_0_def get_completion_from_messages_def
      extraction_request_def transcript_def review_text_def Let_def
      split: option.splits list.splits)

lemma extract_true_val_no_row:
  "df self = [] \<Longrightarrow> extract_true_val self = Inl KeyError"
  by (simp add: extract_true_val_def at_label_0_def)

lemma extract_true_val_row0:
  "df self = r # rest \<Longrightarrow>
   extract_true_val self =
     Inr (self\<lparr>true_entity := [PStr (col_true_entity r)],
               true_aspect := [PStr (col_true_aspect r)]\<rparr>)"
  by (simp add: extract_true_val_def at_label_0_def Let_def)

lemma extract_tuple_eq:
  "extract_tuple self =
     and_then (getitem_str (review_analysis self) ''1'') (\<lambda>entry.
     and_then (getitem_str entry ''named_entity'') (\<lambda>e.
     and_then (getitem_str entry ''aspect'') (\<lambda>aspects.
     and_then (getitem_int aspects 0) (\<lambda>a.
       Inr (self\<lparr>generation := [e, a], predicted_entity := [e],
                  predicted_aspect := [a]\<rparr>)))))"
  by (cases "getitem_str (review_analysis self) ''1''") (simp_all add: extract_tuple_def)

lemma extract_tuple_eq_Inr:
  "extract_tuple self = Inr self' \<longleftrightarrow>
     (\<exists>entry e aspects a.
        getitem_str (review_analysis self) ''1'' = Inr entry \<and>
        getitem_str entry ''named_entity'' = Inr e \<and>
        getitem_str entry ''aspect'' = Inr aspects \<and>
        getitem_int aspects 0 = Inr a \<and>
        self' = self\<lparr>generation := [e, a], predicted_entity := [e], predicted_aspect := [a]\<rparr>)"
  by (auto simp: extract_tuple_eq and_then_eq_Inr)

lemma extract_tuple_df_update:
  "extract_tuple (self\<lparr>df := table\<rparr>) = map_sum id (\<lambda>g. g\<lparr>df := table\<rparr>) (extract_tuple self)"
  by (simp add: extract_tuple_eq and_then_def split: sum.splits)

text \<open>The object as it is when \<^verbatim>\<open>extract_tuple\<close> starts, for a table with a row 0.\<close>

lemma ModelEntityAspectGeneration_init_row0:
  "ModelEntityAspectGeneration_init be (r # rest) sent =
     (case create be (extraction_request (col_review r)) of
        None \<Rightarrow> Inl CompletionError
      | Some resp \<Rightarrow>
          (case choices resp of
             [] \<Rightarrow> Inl IndexError
           | c # cs \<Rightarrow>
               (case literal_eval be (content (choice_message c)) of
                  None \<Rightarrow> Inl LiteralEvalError
                | Some v \<Rightarrow>
                    extract_tuple
                      \<lparr>df = r # rest, review = review_text (col_review r),
                       messages = transcript (col_review r), review_analysis = v,
                       true_entity = [PStr (col_true_entity r)],
                       true_aspect = [PStr (col_true_aspect r)],
                       predicted_entity = [], predicted_aspect = [], generation = []\<rparr>)),
      sent @ [extraction_request (col_review r)])"
  by (simp add: ModelEntityAspectGeneration_init_def order_chat_messages_row0
      extract_true_val_row0 split: option.splits list.splits)

lemma ModelEntityAspectGeneration_init_no_row:
  "ModelEntityAspectGeneration_init be [] sent = (Inl KeyError, sent)"
  by (simp add: ModelEntityAspectGeneration_init_def order_chat_messages_no_row)

lemma example_gen_constructed:
  "ModelEntityAspectGeneration_init mock_backend example_table [] =
     (Inr example_gen, [extraction_request ''The food is decent''])"
  by (simp add: example_table_def ModelEntityAspectGeneration_init_row0 mock_backend_def
      mock_create_def mock_response_def mock_literal_eval_def example_row_def extract_tuple_eq example_analysis_def
      example_gen_def)

lemma ModelEvaluation_init_eq:
  "ModelEvaluation_init be table g threshold_score =
     and_then (extract_cosine_score be (true_entity g) (predicted_entity g)) (\<lambda>s.
     and_then (extract_cosine_score be (true_aspect g) (predicted_aspect g)) (\<lambda>a.
       Inr \<lparr>ev_df = table, model_gen_object = g,
            threshold = (case threshold_score of None \<Rightarrow> Finite float_0_85 | Some t \<Rightarrow> t),
            entity_cosine_score = s, aspect_cosine_score = a,
            keep_entity_prediction =
              Some (float_ge s (case threshold_score of None \<Rightarrow> Finite float_0_85 | Some t \<Rightarrow> t)),
            keep_aspect_prediction =
              Some (float_ge a (case threshold_score of None \<Rightarrow> Finite float_0_85 | Some t \<Rightarrow> t))\<rparr>))"
  by (simp add: ModelEvaluation_init_def invoke_extract_cosine_score_logic_def
      invoke_evaluation_logic_eq and_then_def Let_def split: sum.splits)

lemma ModelEvaluation_init_other_table:
  "ModelEvaluation_init be table (g\<lparr>df := table\<rparr>) threshold_score =
     map_sum id (\<lambda>ev. ev\<lparr>ev_df := table, model_gen_object := (model_gen_object ev)\<lparr>df := table\<rparr>\<rparr>)
       (ModelEvaluation_init be table' g threshold_score)"
  by (simp add: ModelEvaluation_init_eq and_then_def split: sum.splits)

lemma ModelEvaluation_init_read_csv:
  "ModelEvaluation_init (be\<lparr>read_csv := f\<rparr>) table g threshold_score =
     ModelEvaluation_init be table g threshold_score"
  by (simp add: ModelEvaluation_init_eq extract_cosine_score_def cong: option.case_cong)

lemma ModelEntityAspectGeneration_init_read_csv:
  "ModelEntityAspectGeneration_init (be\<lparr>read_csv := f\<rparr>) table sent =
     ModelEntityAspectGeneration_init be table sent"
  by (cases table)
    (simp_all add: ModelEntityAspectGeneration_init_no_row ModelEntityAspectGeneration_init_row0
      cong: option.case_cong list.case_cong)

lemma ModelEntityAspectGeneration_init_other_rows:
  "ModelEntityAspectGeneration_init be (r # rest) sent =
     (map_sum id (\<lambda>g. g\<lparr>df := r # rest\<rparr>) (fst (ModelEntityAspectGeneration_init be [r] sent)),
      snd (ModelEntityAspectGeneration_init be [r] sent))"
proof -
  have "\<lparr>df = r # rest, review = rv, messages = ms, review_analysis = v, true_entity = te,
         true_aspect = ta, predicted_entity = [], predicted_aspect = [], generation = []\<rparr> =
        \<lparr>df = [r], review = rv, messages = ms, review_analysis = v, true_entity = te,
         true_aspect = ta, predicted_entity = [], predicted_aspect = [],
         generation = []\<rparr>\<lparr>df := r # rest\<rparr>" for rv ms v te ta
    by simp
  then show ?thesis
    by (simp only: ModelEntityAspectGeneration_init_row0 extract_tuple_df_update)
      (simp split: option.splits list.splits)
qed

lemma ModelEntityAspectGeneration_init_eq_Inr:
  assumes "ModelEntityAspectGeneration_init be table sent = (Inr g, sent')"
  shows "\<exists>r rest resp c cs v entry e aspects a.
           table = r # rest \<and>
           create be (extraction_request (col_review r)) = Some resp \<and>
           choices resp = c # cs \<and>
           literal_eval be (content (choice_message c)) = Some v \<and>
           getitem_str v ''1'' = Inr entry \<and>
           getitem_str entry ''named_entity'' = Inr e \<and>
           getitem_str entry ''aspect'' = Inr aspects \<and>
           getitem_int aspects 0 = Inr a \<and>
           sent' = sent @ [extraction_request (col_review r)] \<and>
           g = \<lparr>df = table, review = review_text (col_review r),
                 messages = transcript (col_review r), review_analysis = v,
                 true_entity = [PStr (col_true_entity r)],
                 true_aspect = [PStr (col_true_aspect r)],
                 predicted_entity = [e], predicted_aspect = [a], generation = [e, a]\<rparr>"
proof (cases table)
  case Nil
  with assms show ?thesis by (simp add: ModelEntityAspectGeneration_init_no_row)
next
  case (Cons r rest)
  with assms show ?thesis
    by (auto simp: ModelEntityAspectGeneration_init_row0 extract_tuple_eq_Inr
        split: option.splits list.splits)
qed

lemma example_flow:
  "flow (mock_backend\<lparr>read_csv := \<lambda>path. Some example_table\<rparr>) [] =
     (Inr example_ev, [extraction_request ''The food is decent''])"
  by (simp add: flow_def load_data_def ModelEntityAspectGeneration_init_read_csv
      ModelEvaluation_init_read_csv example_gen_constructed example_ev_constructed)

section \<open>Counting the few-shot examples\<close>

lemma starts_with_line:
  "nl \<notin> set pat \<Longrightarrow> starts_with pat (l @ nl # rest) = starts_with pat (l @ [nl])"
proof (induction l arbitrary: pat)
  case Nil
  then show ?case by (cases pat) auto
next
  case (Cons c l)
  then show ?case by (cases pat) auto
qed

lemma count_occurrences_line:
  assumes "nl \<notin> set pat"
  shows "count_occurrences pat ((l @ [nl]) @ rest) =
         count_occurrences pat (l @ [nl]) + count_occurrences pat rest"
proof (induction l)
  case Nil
  from assms show ?case by (cases pat) auto
next
  case (Cons c l)
  have "starts_with pat (c # l @ nl # rest) = starts_with pat (c # l @ [nl])"
    using starts_with_line [OF assms, of "c # l" rest] by simp
  with Cons show ?case by simp
qed

lemma count_occurrences_append:
  assumes "a \<noteq> []" "last a \<notin> set pat"
  shows "count_occurrences pat (a @ rest) = count_occurrences pat a + count_occurrences pat rest"
proof -
  from assms(1) have "a = butlast a @ [last a]" by simp
  then show ?thesis
    using count_occurrences_line [OF assms(2), of "butlast a" rest] by simp
qed

lemma twelve_arrows: "count_occurrences ''-->'' user_clarification_prompt = 12"
  unfolding user_clarification_prompt_def
  by (simp add: count_occurrences_append del: append_Cons append_assoc)

section \<open>The acceptance rule\<close>

text \<open>
  Claim C1. For every cosine score and every threshold, \<^verbatim>\<open>ModelEvaluation.evaluate\<close> returns
  true if and only if the score is greater than or equal to the threshold (for two finite
  floats: if and only if the threshold is at most the score as a number). An evaluation
  constructed without a threshold has the threshold 0.85 as Python reads that literal: the
  double \<open>7656119366529843 / 2^53\<close>, which is the one nearest to the decimal (closer than
  half a unit in the last place, \<open>1 / 2^54\<close>), and a score equal to that float is accepted
  at the default. An evaluation constructed with a threshold has that threshold.
\<close>

theorem evaluate_accepts_iff_score_ge_threshold:
  "(evaluate self cosine_score \<longleftrightarrow> float_ge cosine_score (threshold self)) \<and>
   (evaluate (self\<lparr>threshold := Finite t\<rparr>) (Finite x) \<longleftrightarrow> t \<le> x) \<and>
   (ModelEvaluation_init be table g None = Inr ev \<longrightarrow>
      threshold ev = Finite (7656119366529843 / 2 ^ 53) \<and>
      \<bar>7656119366529843 / 2 ^ 53 - (0.85 :: real)\<bar> < 1 / 2 ^ 54 \<and>
      evaluate ev (Finite (7656119366529843 / 2 ^ 53))) \<and>
   (ModelEvaluation_init be table g (Some thr) = Inr ev' \<longrightarrow> threshold ev' = thr)"
proof -
  have nearest: "\<bar>7656119366529843 / 2 ^ 53 - (0.85 :: real)\<bar> < 1 / 2 ^ 54"
    by simp
  have default: "float_0_85 = 7656119366529843 / 2 ^ 53"
    by (simp add: float_0_85_def)
  have "threshold ev = Finite (7656119366529843 / 2 ^ 53) \<and>
        evaluate ev (Finite (7656119366529843 / 2 ^ 53))"
    if "ModelEvaluation_init be table g None = Inr ev"
    using that by (auto simp: ModelEvaluation_init_eq_Inr evaluate_eq default)
  moreover have "threshold ev' = thr"
    if "ModelEvaluation_init be table g (Some thr) = Inr ev'"
    using that by (auto simp: ModelEvaluation_init_eq_Inr)
  ultimately show ?thesis
    using nearest by (simp add: evaluate_eq)
qed

theorem evaluate_accepts_iff_score_ge_threshold_witness:
  "ModelEvaluation_init mock_backend example_table example_gen None = Inr example_ev \<and>
   threshold example_ev = Finite (7656119366529843 / 2 ^ 53) \<and>
   evaluate example_ev (Finite (7656119366529843 / 2 ^ 53)) \<and>
   ModelEvaluation_init mock_backend example_table example_gen (Some (Finite 0)) =
     Inr (example_ev\<lparr>threshold := Finite 0\<rparr>) \<and>
   threshold (example_ev\<lparr>threshold := Finite 0\<rparr>) = Finite 0 \<and>
   evaluate (example_ev\<lparr>threshold := Finite (3 / 4)\<rparr>) (Finite (7 / 8)) \<and>
   \<not> evaluate (example_ev\<lparr>threshold := Finite (7 / 8)\<rparr>) (Finite (3 / 4))"
proof -
  have with_zero:
    "ModelEvaluation_init mock_backend example_table example_gen (Some (Finite 0)) =
       Inr (example_ev\<lparr>threshold := Finite 0\<rparr>)"
    by (simp add: ModelEvaluation_init_eq_Inr extract_cosine_score_eq_Inr mock_backend_def
        mock_encode_def mock_cos_sim_def example_gen_def example_ev_def)
  note inst = evaluate_accepts_iff_score_ge_threshold
    [of example_ev "Finite (7 / 8)" "3 / 4" "7 / 8" mock_backend example_table example_gen
        example_ev "Finite 0" "example_ev\<lparr>threshold := Finite 0\<rparr>"]
  note inst' = evaluate_accepts_iff_score_ge_threshold
    [of example_ev "Finite (3 / 4)" "7 / 8" "3 / 4" mock_backend example_table example_gen
        example_ev "Finite 0" "example_ev\<lparr>threshold := Finite 0\<rparr>"]
  from inst example_ev_constructed
  have "threshold example_ev = Finite (7656119366529843 / 2 ^ 53)"
    "evaluate example_ev (Finite (7656119366529843 / 2 ^ 53))"
    by blast+
  moreover from inst have "evaluate (example_ev\<lparr>threshold := Finite (3 / 4)\<rparr>) (Finite (7 / 8))"
    by simp
  moreover from inst' have "\<not> evaluate (example_ev\<lparr>threshold := Finite (7 / 8)\<rparr>) (Finite (3 / 4))"
    by simp
  ultimately show ?thesis
    using example_ev_constructed with_zero by simp
qed

text \<open>
  Claim C4, as stated: with a threshold of 0.0 every similarity score in \<open>[-1, 1]\<close> is accepted.
  The score \<open>-0.5\<close> lies in that interval and is rejected at the threshold 0.0, by
  \<^verbatim>\<open>evaluate\<close> and in the keep-flag that \<^verbatim>\<open>invoke_evaluation_logic\<close> stores.
\<close>

theorem threshold_zero_rejects_negative_score:
  "- 1 \<le> (- 1 / 2 :: real) \<and> (- 1 / 2 :: real) \<le> 1 \<and>
   \<not> evaluate (example_ev\<lparr>threshold := Finite 0\<rparr>) (Finite (- 1 / 2)) \<and>
   keep_entity_prediction
     (invoke_evaluation_logic
        (example_ev\<lparr>threshold := Finite 0, entity_cosine_score := Finite (- 1 / 2)\<rparr>)) =
     Some False"
  by (simp add: evaluate_eq invoke_evaluation_logic_eq)

text \<open>
  Claim C4, amended. With a threshold of 0.0 every score that is not negative (so every score
  in \<open>[0, 1]\<close>) is accepted, and with a threshold strictly greater than 1.0 every score in
  \<open>[-1, 1]\<close> is rejected; the keep-flags stored by \<^verbatim>\<open>invoke_evaluation_logic\<close> say the same.
\<close>

theorem threshold_zero_accepts_nonnegative_and_above_one_rejects:
  "(0 \<le> x \<longrightarrow>
      evaluate (self\<lparr>threshold := Finite 0\<rparr>) (Finite x) \<and>
      keep_entity_prediction
        (invoke_evaluation_logic (self\<lparr>threshold := Finite 0, entity_cosine_score := Finite x\<rparr>)) =
        Some True \<and>
      keep_aspect_prediction
        (invoke_evaluation_logic (self\<lparr>threshold := Finite 0, aspect_cosine_score := Finite x\<rparr>)) =
        Some True) \<and>
   (- 1 \<le> y \<and> y \<le> 1 \<and> 1 < t \<longrightarrow>
      \<not> evaluate (self\<lparr>threshold := Finite t\<rparr>) (Finite y) \<and>
      keep_entity_prediction
        (invoke_evaluation_logic (self\<lparr>threshold := Finite t, entity_cosine_score := Finite y\<rparr>)) =
        Some False \<and>
      keep_aspect_prediction
        (invoke_evaluation_logic (self\<lparr>threshold := Finite t, aspect_cosine_score := Finite y\<rparr>)) =
        Some False)"
  by (simp add: evaluate_eq invoke_evaluation_logic_eq)

theorem threshold_zero_accepts_nonnegative_and_above_one_rejects_witness:
  "(0 :: real) \<le> 1 / 2 \<and>
   evaluate (example_ev\<lparr>threshold := Finite 0\<rparr>) (Finite (1 / 2)) \<and>
   keep_entity_prediction
     (invoke_evaluation_logic
        (example_ev\<lparr>threshold := Finite 0, entity_cosine_score := Finite (1 / 2)\<rparr>)) =
     Some True \<and>
   - 1 \<le> (1 :: real) \<and> (1 :: real) \<le> 1 \<and> (1 :: real) < 3 / 2 \<and>
   \<not> evaluate (example_ev\<lparr>threshold := Finite (3 / 2)\<rparr>) (Finite 1) \<and>
   keep_aspect_prediction
     (invoke_evaluation_logic
        (example_ev\<lparr>threshold := Finite (3 / 2), aspect_cosine_score := Finite 1\<rparr>)) =
     Some False"
  using threshold_zero_accepts_nonnegative_and_above_one_rejects
    [of "1 / 2" example_ev 1 "3 / 2"]
  by simp

section \<open>The two similarity scores\<close>

text \<open>
  Claim C8. In a constructed evaluation each stored score is the entry at position (0, 0) of
  the cosine-similarity matrix of the embeddings of its own pair of lists (true value,
  predicted value), and each keep-flag is the acceptance decision on its own score. An
  evaluation of any other generation object with the same entity lists has the same entity
  score and flag whatever its aspect lists are, and the same with the two fields exchanged.
  The object has no field for a combined score.
\<close>

theorem scores_are_pairwise_and_independent:
  assumes "ModelEvaluation_init be table g threshold_score = Inr ev"
  shows
    "(\<exists>embeddings_true embeddings_pred m.
        encode be (true_entity g) = Some embeddings_true \<and>
        encode be (predicted_entity g) = Some embeddings_pred \<and>
        cos_sim be embeddings_true embeddings_pred = Some m \<and>
        m \<noteq> [] \<and> hd m \<noteq> [] \<and> entity_cosine_score ev = hd (hd m)) \<and>
     (\<exists>embeddings_true embeddings_pred m.
        encode be (true_aspect g) = Some embeddings_true \<and>
        encode be (predicted_aspect g) = Some embeddings_pred \<and>
        cos_sim be embeddings_true embeddings_pred = Some m \<and>
        m \<noteq> [] \<and> hd m \<noteq> [] \<and> aspect_cosine_score ev = hd (hd m)) \<and>
     extract_cosine_score be (true_entity g) (predicted_entity g) = Inr (entity_cosine_score ev) \<and>
     extract_cosine_score be (true_aspect g) (predicted_aspect g) = Inr (aspect_cosine_score ev) \<and>
     keep_entity_prediction ev = Some (evaluate ev (entity_cosine_score ev)) \<and>
     keep_aspect_prediction ev = Some (evaluate ev (aspect_cosine_score ev)) \<and>
     (\<forall>table' g' ev'.
        ModelEvaluation_init be table' g' threshold_score = Inr ev' \<and>
        true_entity g' = true_entity g \<and> predicted_entity g' = predicted_entity g \<longrightarrow>
        entity_cosine_score ev' = entity_cosine_score ev \<and>
        keep_entity_prediction ev' = keep_entity_prediction ev) \<and>
     (\<forall>table' g' ev'.
        ModelEvaluation_init be table' g' threshold_score = Inr ev' \<and>
        true_aspect g' = true_aspect g \<and> predicted_aspect g' = predicted_aspect g \<longrightarrow>
        aspect_cosine_score ev' = aspect_cosine_score ev \<and>
        keep_aspect_prediction ev' = keep_aspect_prediction ev)"
proof -
  from assms obtain s a where
    s: "extract_cosine_score be (true_entity g) (predicted_entity g) = Inr s" and
    a: "extract_cosine_score be (true_aspect g) (predicted_aspect g) = Inr a" and
    ev: "entity_cosine_score ev = s" "aspect_cosine_score ev = a"
      "keep_entity_prediction ev = Some (float_ge s (threshold ev))"
      "keep_aspect_prediction ev = Some (float_ge a (threshold ev))"
      "threshold ev = (case threshold_score of None \<Rightarrow> Finite float_0_85 | Some t \<Rightarrow> t)"
    by (auto simp: ModelEvaluation_init_eq_Inr)
  have entity: "\<exists>embeddings_true embeddings_pred m.
        encode be (true_entity g) = Some embeddings_true \<and>
        encode be (predicted_entity g) = Some embeddings_pred \<and>
        cos_sim be embeddings_true embeddings_pred = Some m \<and>
        m \<noteq> [] \<and> hd m \<noteq> [] \<and> entity_cosine_score ev = hd (hd m)"
    using s ev(1) by (simp add: extract_cosine_score_eq_Inr)
  have aspect: "\<exists>embeddings_true embeddings_pred m.
        encode be (true_aspect g) = Some embeddings_true \<and>
        encode be (predicted_aspect g) = Some embeddings_pred \<and>
        cos_sim be embeddings_true embeddings_pred = Some m \<and>
        m \<noteq> [] \<and> hd m \<noteq> [] \<and> aspect_cosine_score ev = hd (hd m)"
    using a ev(2) by (simp add: extract_cosine_score_eq_Inr)
  have flags: "keep_entity_prediction ev = Some (evaluate ev (entity_cosine_score ev))"
    "keep_aspect_prediction ev = Some (evaluate ev (aspect_cosine_score ev))"
    using ev by (simp_all add: evaluate_eq)
  have other_entity: "entity_cosine_score ev' = entity_cosine_score ev \<and>
        keep_entity_prediction ev' = keep_entity_prediction ev"
    if "ModelEvaluation_init be table' g' threshold_score = Inr ev'"
      "true_entity g' = true_entity g" "predicted_entity g' = predicted_entity g"
    for table' g' ev'
    using that s ev by (auto simp: ModelEvaluation_init_eq_Inr)
  have other_aspect: "aspect_cosine_score ev' = aspect_cosine_score ev \<and>
        keep_aspect_prediction ev' = keep_aspect_prediction ev"
    if "ModelEvaluation_init be table' g' threshold_score = Inr ev'"
      "true_aspect g' = true_aspect g" "predicted_aspect g' = predicted_aspect g"
    for table' g' ev'
    using that a ev by (auto simp: ModelEvaluation_init_eq_Inr)
  from entity aspect s a ev(1,2) flags other_entity other_aspect show ?thesis
    by blast
qed

theorem scores_are_pairwise_and_independent_witness:
  "ModelEvaluation_init mock_backend example_table example_gen None = Inr example_ev \<and>
   ModelEvaluation_init mock_backend example_table example_gen_fresh None = Inr example_ev_fresh \<and>
   true_entity example_gen_fresh = true_entity example_gen \<and>
   predicted_entity example_gen_fresh = predicted_entity example_gen \<and>
   predicted_aspect example_gen_fresh \<noteq> predicted_aspect example_gen \<and>
   entity_cosine_score example_ev_fresh = entity_cosine_score example_ev \<and>
   keep_entity_prediction example_ev_fresh = keep_entity_prediction example_ev \<and>
   aspect_cosine_score example_ev_fresh \<noteq> aspect_cosine_score example_ev \<and>
   extract_cosine_score mock_backend (true_entity example_gen) (predicted_entity example_gen) =
     Inr (Finite 1) \<and>
   keep_aspect_prediction example_ev = Some (evaluate example_ev (aspect_cosine_score example_ev))"
proof -
  note inst = scores_are_pairwise_and_independent [OF example_ev_constructed]
  have same: "true_entity example_gen_fresh = true_entity example_gen"
    "predicted_entity example_gen_fresh = predicted_entity example_gen"
    by (simp_all add: example_gen_fresh_def)
  from inst example_ev_fresh_constructed same
  have "entity_cosine_score example_ev_fresh = entity_cosine_score example_ev \<and>
        keep_entity_prediction example_ev_fresh = keep_entity_prediction example_ev"
    by blast
  moreover from inst
  have "extract_cosine_score mock_backend (true_entity example_gen) (predicted_entity example_gen) =
          Inr (entity_cosine_score example_ev)"
    "keep_aspect_prediction example_ev = Some (evaluate example_ev (aspect_cosine_score example_ev))"
    by blast+
  ultimately show ?thesis
    using example_ev_constructed example_ev_fresh_constructed same
    by (simp add: example_ev_def example_ev_fresh_def example_gen_def example_gen_fresh_def)
qed

section \<open>What the evaluation writes\<close>

text \<open>
  Claim C10. Constructing a \<^verbatim>\<open>ModelEvaluation\<close> leaves the table and the generation object it
  was given as they were (the object holds them unchanged), and its threshold is the one it
  was given (the float 0.85 when none was given). Of the two methods the constructor runs,
  \<^verbatim>\<open>invoke_extract_cosine_score_logic\<close> changes the two score fields only and
  \<^verbatim>\<open>invoke_evaluation_logic\<close> the two keep-flags only.
\<close>

theorem evaluation_writes_only_its_result_fields:
  assumes "ModelEvaluation_init be table g threshold_score = Inr ev"
  shows
    "ev_df ev = table \<and> model_gen_object ev = g \<and>
     threshold ev = (case threshold_score of None \<Rightarrow> Finite float_0_85 | Some t \<Rightarrow> t) \<and>
     ev = \<lparr>ev_df = table, model_gen_object = g,
           threshold = (case threshold_score of None \<Rightarrow> Finite float_0_85 | Some t \<Rightarrow> t),
           entity_cosine_score = entity_cosine_score ev,
           aspect_cosine_score = aspect_cosine_score ev,
           keep_entity_prediction = keep_entity_prediction ev,
           keep_aspect_prediction = keep_aspect_prediction ev\<rparr> \<and>
     (\<forall>self self'.
        invoke_extract_cosine_score_logic be self = Inr self' \<longrightarrow>
        self' = self\<lparr>entity_cosine_score := entity_cosine_score self',
                     aspect_cosine_score := aspect_cosine_score self'\<rparr>) \<and>
     (\<forall>self.
        invoke_evaluation_logic self =
          self\<lparr>keep_entity_prediction := keep_entity_prediction (invoke_evaluation_logic self),
               keep_aspect_prediction := keep_aspect_prediction (invoke_evaluation_logic self)\<rparr>)"
  using assms
  by (auto simp: ModelEvaluation_init_eq_Inr invoke_extract_cosine_score_logic_eq_Inr
      invoke_evaluation_logic_eq)

theorem evaluation_writes_only_its_result_fields_witness:
  "ModelEvaluation_init mock_backend example_table example_gen None = Inr example_ev \<and>
   ev_df example_ev = example_table \<and> model_gen_object example_ev = example_gen \<and>
   threshold example_ev = Finite float_0_85 \<and>
   invoke_extract_cosine_score_logic mock_backend (example_ev_fresh\<lparr>model_gen_object := example_gen\<rparr>) =
     Inr (example_ev_fresh\<lparr>model_gen_object := example_gen, aspect_cosine_score := Finite 1\<rparr>) \<and>
   model_gen_object (example_ev_fresh\<lparr>model_gen_object := example_gen, aspect_cosine_score := Finite 1\<rparr>) =
     example_gen"
proof -
  note inst = evaluation_writes_only_its_result_fields [OF example_ev_constructed]
  have step:
    "invoke_extract_cosine_score_logic mock_backend (example_ev_fresh\<lparr>model_gen_object := example_gen\<rparr>) =
       Inr (example_ev_fresh\<lparr>model_gen_object := example_gen, aspect_cosine_score := Finite 1\<rparr>)"
    by (simp add: invoke_extract_cosine_score_logic_eq_Inr extract_cosine_score_eq_Inr
        mock_backend_def mock_encode_def mock_cos_sim_def example_gen_def example_ev_fresh_def)
  from inst have "ev_df example_ev = example_table" "model_gen_object example_ev = example_gen"
    "threshold example_ev = Finite float_0_85"
    by simp_all
  with step example_ev_constructed show ?thesis by simp
qed

section \<open>Reading the completion\<close>

text \<open>
  Claim C2. When the parsed completion is a mapping whose entry at key "1" is a mapping with a
  \<^verbatim>\<open>named_entity\<close> field and an \<^verbatim>\<open>aspect\<close> list that is not empty, \<^verbatim>\<open>extract_tuple\<close>
  takes that field as the predicted entity and the first element of the list as the predicted
  aspect. The other items of the mapping, the other items of the entry and the later elements
  of the list do not occur in the result.
\<close>

theorem extract_tuple_reads_key_1_and_first_aspect:
  assumes "review_analysis self = PDict items"
    and "map_of items (PStr ''1'') = Some (PDict entry_items)"
    and "map_of entry_items (PStr ''named_entity'') = Some e"
    and "map_of entry_items (PStr ''aspect'') = Some (PList (a # later))"
  shows "extract_tuple self =
           Inr (self\<lparr>generation := [e, a], predicted_entity := [e], predicted_aspect := [a]\<rparr>)"
  using assms by (simp add: extract_tuple_eq)

theorem extract_tuple_reads_key_1_and_first_aspect_witness:
  "review_analysis (example_gen\<lparr>generation := [], predicted_entity := [], predicted_aspect := []\<rparr>) =
     PDict [(PStr ''1'', PDict [(PStr ''named_entity'', PStr ''food''),
                               (PStr ''aspect'', PList [PStr ''decent'', PStr ''fresh''])]),
            (PStr ''2'', PDict [(PStr ''named_entity'', PStr ''music''),
                               (PStr ''aspect'', PList [PStr ''bad''])])] \<and>
   extract_tuple (example_gen\<lparr>generation := [], predicted_entity := [], predicted_aspect := []\<rparr>) =
     Inr example_gen \<and>
   generation example_gen = [PStr ''food'', PStr ''decent''] \<and>
   predicted_entity example_gen = [PStr ''food''] \<and>
   predicted_aspect example_gen = [PStr ''decent'']"
proof -
  let ?self = "example_gen\<lparr>generation := [], predicted_entity := [], predicted_aspect := []\<rparr>"
  let ?entry = "[(PStr ''named_entity'', PStr ''food''),
                  (PStr ''aspect'', PList [PStr ''decent'', PStr ''fresh''])]"
  let ?items = "[(PStr ''1'', PDict ?entry),
                 (PStr ''2'', PDict [(PStr ''named_entity'', PStr ''music''),
                                    (PStr ''aspect'', PList [PStr ''bad''])])]"
  have h1: "review_analysis ?self = PDict ?items"
    by (simp add: example_gen_def example_analysis_def)
  have h2: "map_of ?items (PStr ''1'') = Some (PDict ?entry)" by simp
  have h3: "map_of ?entry (PStr ''named_entity'') = Some (PStr ''food'')" by simp
  have h4: "map_of ?entry (PStr ''aspect'') = Some (PList (PStr ''decent'' # [PStr ''fresh'']))"
    by simp
  from extract_tuple_reads_key_1_and_first_aspect [OF h1 h2 h3 h4] h1 show ?thesis
    by (simp add: example_gen_def)
qed

text \<open>
  Claim C3, as stated: a completion text that is not a literal mapping makes parsing raise, and
  an empty aspect list at key "1" raises an index error. Neither holds in general. The text
  \<^verbatim>\<open>[]\<close> is a literal, the empty list: \<^verbatim>\<open>order_chat_messages\<close>, which does the parsing, returns
  with the list as \<^verbatim>\<open>review_analysis\<close>, and the constructor ends with the \<^verbatim>\<open>TypeError\<close> of
  \<^verbatim>\<open>extract_tuple\<close>. And for the completion \<^verbatim>\<open>{"1": {"aspect": []}}\<close>, whose aspect list at
  key "1" is empty, the constructor ends with \<^verbatim>\<open>KeyError\<close>: the lookup of \<^verbatim>\<open>named_entity\<close>
  comes first.
\<close>

theorem list_completion_parses_and_missing_entity_is_key_error:
  "fst (order_chat_messages (backend_answering ''[]'' (Some (PList []))) example_gen []) =
     Inr (example_gen\<lparr>review_analysis := PList []\<rparr>) \<and>
   fst (ModelEntityAspectGeneration_init (backend_answering ''[]'' (Some (PList [])))
          example_table []) = Inl TypeError \<and>
   fst (ModelEntityAspectGeneration_init
          (backend_answering completion_no_entity
             (Some (PDict [(PStr ''1'', PDict [(PStr ''aspect'', PList [])])])))
          example_table []) = Inl KeyError"
proof -
  have row0: "df example_gen = example_row # [other_row]"
    by (simp add: example_gen_def example_table_def)
  have "fst (order_chat_messages (backend_answering ''[]'' (Some (PList []))) example_gen []) =
     Inr (example_gen\<lparr>review_analysis := PList []\<rparr>)"
    by (simp only: order_chat_messages_row0 [OF row0])
      (simp add: backend_answering_def example_row_def example_gen_def)
  moreover
  have "fst (ModelEntityAspectGeneration_init (backend_answering ''[]'' (Some (PList [])))
          example_table []) = Inl TypeError"
    by (simp add: example_table_def ModelEntityAspectGeneration_init_row0 backend_answering_def
        extract_tuple_eq)
  moreover
  have "fst (ModelEntityAspectGeneration_init
          (backend_answering completion_no_entity
             (Some (PDict [(PStr ''1'', PDict [(PStr ''aspect'', PList [])])])))
          example_table []) = Inl KeyError"
    by (simp add: example_table_def ModelEntityAspectGeneration_init_row0 backend_answering_def
        extract_tuple_eq)
  ultimately show ?thesis by blast
qed

text \<open>
  Claim C3, amended. For a table with a row 0 and a completion whose first choice has the
  text \<open>text\<close>, the constructor of the generation object ends with an exception and builds no
  object, so no prediction is produced, in each of these cases: with the exception of
  \<^verbatim>\<open>ast.literal_eval\<close> when \<open>text\<close> is not a literal; with \<^verbatim>\<open>TypeError\<close> when it is a literal
  that is not a mapping (parsing succeeds, reading key "1" fails); with \<^verbatim>\<open>KeyError\<close> when the
  mapping has no key "1"; with \<^verbatim>\<open>KeyError\<close> when the entry at key "1" is a mapping without
  \<^verbatim>\<open>named_entity\<close>; and with \<^verbatim>\<open>IndexError\<close> when that entry has a \<^verbatim>\<open>named_entity\<close> and an
  empty \<^verbatim>\<open>aspect\<close> list.
\<close>

theorem malformed_completion_is_fatal:
  assumes "create be (extraction_request (col_review r)) = Some resp"
    and "choices resp = c # cs"
    and "content (choice_message c) = text"
  shows
    "(literal_eval be text = None \<longrightarrow>
        fst (ModelEntityAspectGeneration_init be (r # rest) sent) = Inl LiteralEvalError) \<and>
     (\<forall>v. literal_eval be text = Some v \<and> (\<forall>items. v \<noteq> PDict items) \<longrightarrow>
        fst (ModelEntityAspectGeneration_init be (r # rest) sent) = Inl TypeError) \<and>
     (\<forall>items. literal_eval be text = Some (PDict items) \<and> map_of items (PStr ''1'') = None \<longrightarrow>
        fst (ModelEntityAspectGeneration_init be (r # rest) sent) = Inl KeyError) \<and>
     (\<forall>items entry_items.
        literal_eval be text = Some (PDict items) \<and>
        map_of items (PStr ''1'') = Some (PDict entry_items) \<and>
        map_of entry_items (PStr ''named_entity'') = None \<longrightarrow>
        fst (ModelEntityAspectGeneration_init be (r # rest) sent) = Inl KeyError) \<and>
     (\<forall>items entry_items e.
        literal_eval be text = Some (PDict items) \<and>
        map_of items (PStr ''1'') = Some (PDict entry_items) \<and>
        map_of entry_items (PStr ''named_entity'') = Some e \<and>
        map_of entry_items (PStr ''aspect'') = Some (PList []) \<longrightarrow>
        fst (ModelEntityAspectGeneration_init be (r # rest) sent) = Inl IndexError)"
proof -
  have not_dict: "getitem_str v ''1'' = Inl TypeError" if "\<forall>items. v \<noteq> PDict items" for v
    using that by (cases v) simp_all
  show ?thesis
    using assms
    by (auto simp: ModelEntityAspectGeneration_init_row0 extract_tuple_eq not_dict)
qed

theorem malformed_completion_is_fatal_witness:
  "fst (ModelEntityAspectGeneration_init (backend_answering ''I could not find anything.'' None)
         (example_row # [other_row]) []) = Inl LiteralEvalError \<and>
   fst (ModelEntityAspectGeneration_init (backend_answering ''[]'' (Some (PList [])))
         (example_row # [other_row]) []) = Inl TypeError \<and>
   fst (ModelEntityAspectGeneration_init
         (backend_answering completion_no_key_1
            (Some (PDict [(PStr ''2'', PDict [(PStr ''named_entity'', PStr ''music''),
                                            (PStr ''aspect'', PList [PStr ''bad''])])])))
         (example_row # [other_row]) []) = Inl KeyError \<and>
   fst (ModelEntityAspectGeneration_init
         (backend_answering completion_no_entity
            (Some (PDict [(PStr ''1'', PDict [(PStr ''aspect'', PList [])])])))
         (example_row # [other_row]) []) = Inl KeyError \<and>
   fst (ModelEntityAspectGeneration_init
         (backend_answering completion_empty_aspect
            (Some (PDict [(PStr ''1'', PDict [(PStr ''named_entity'', PStr ''food''),
                                            (PStr ''aspect'', PList [])])])))
         (example_row # [other_row]) []) = Inl IndexError"
proof -
  have completion:
    "create (backend_answering answer parsed) (extraction_request (col_review example_row)) =
       Some \<lparr>choices = [\<lparr>choice_message = \<lparr>role = ''assistant'', content = answer\<rparr>\<rparr>]\<rparr>"
    "choices \<lparr>choices = [\<lparr>choice_message = \<lparr>role = ''assistant'', content = answer\<rparr>\<rparr>]\<rparr> =
       \<lparr>choice_message = \<lparr>role = ''assistant'', content = answer\<rparr>\<rparr> # []"
    "content (choice_message \<lparr>choice_message = \<lparr>role = ''assistant'', content = answer\<rparr>\<rparr>) =
       answer"
    for answer parsed
    by (simp_all add: backend_answering_def)
  have parse: "literal_eval (backend_answering answer parsed) answer = parsed" for answer parsed
    by (simp add: backend_answering_def)
  note inst = malformed_completion_is_fatal [OF completion, of _ _ "[other_row]" "[]"]
  have "fst (ModelEntityAspectGeneration_init (backend_answering ''I could not find anything.'' None)
         (example_row # [other_row]) []) = Inl LiteralEvalError"
    using inst [of "''I could not find anything.''" None] by (simp add: parse)
  moreover
  have "fst (ModelEntityAspectGeneration_init (backend_answering ''[]'' (Some (PList [])))
         (example_row # [other_row]) []) = Inl TypeError"
    using inst [of "''[]''" "Some (PList [])"] by (simp add: parse)
  moreover
  have "fst (ModelEntityAspectGeneration_init
         (backend_answering completion_no_key_1
            (Some (PDict [(PStr ''2'', PDict [(PStr ''named_entity'', PStr ''music''),
                                            (PStr ''aspect'', PList [PStr ''bad''])])])))
         (example_row # [other_row]) []) = Inl KeyError"
    using inst [of completion_no_key_1
        "Some (PDict [(PStr ''2'', PDict [(PStr ''named_entity'', PStr ''music''),
                                         (PStr ''aspect'', PList [PStr ''bad''])])])"]
    by (simp add: parse)
  moreover
  have "fst (ModelEntityAspectGeneration_init
         (backend_answering completion_no_entity
            (Some (PDict [(PStr ''1'', PDict [(PStr ''aspect'', PList [])])])))
         (example_row # [other_row]) []) = Inl KeyError"
    using inst [of completion_no_entity
        "Some (PDict [(PStr ''1'', PDict [(PStr ''aspect'', PList [])])])"]
    by (simp add: parse)
  moreover
  have "fst (ModelEntityAspectGeneration_init
         (backend_answering completion_empty_aspect
            (Some (PDict [(PStr ''1'', PDict [(PStr ''named_entity'', PStr ''food''),
                                            (PStr ''aspect'', PList [])])])))
         (example_row # [other_row]) []) = Inl IndexError"
    using inst [of completion_empty_aspect
        "Some (PDict [(PStr ''1'', PDict [(PStr ''named_entity'', PStr ''food''),
                                         (PStr ''aspect'', PList [])])])"]
    by (simp add: parse)
  ultimately show ?thesis by blast
qed

section \<open>The transcript and the request\<close>

text \<open>
  Claim C5. For a table with a row 0, \<^verbatim>\<open>order_chat_messages\<close> sends one request whose messages
  are exactly six, with the roles system, user, assistant, user, assistant, user and with the
  contents written out below: the persona of the review analyzer, the extraction rules, the
  first acknowledgment, the few-shot examples (twelve of them), the second acknowledgment,
  and the review cell of row 0 between the two fixed pieces of the template. The list is
  \<open>transcript\<close> of that cell, a function of the cell alone; it is the message list of the
  request that is sent and what the object keeps in \<^verbatim>\<open>messages\<close> when the method returns.
\<close>

theorem transcript_is_six_fixed_messages:
  assumes "df self = r # rest"
  shows
    \<open>snd (order_chat_messages be self sent) = sent @ [extraction_request (col_review r)] \<and>
     req_messages (extraction_request (col_review r)) = transcript (col_review r) \<and>
     length (transcript (col_review r)) = 6 \<and>
     map role (transcript (col_review r)) =
       [''system'', ''user'', ''assistant'', ''user'', ''assistant'', ''user''] \<and>
     map content (transcript (col_review r)) =
         [(''\<newline>'' @
           ''        You are an NLP customer review analyzer who knows how to find what named entity the review         is addressing and the aspect/opinion about this named entity. \<newline>'' @
           ''        ''),
          (''\<newline>'' @
           ''        Your task is to extract both the entity and aspect/opinion that are literally mentioned in the review. /\<newline>'' @
           ''    \<newline>'' @
           ''        Pay attention to the following (important):\<newline>'' @
           ''        - The entity and aspect/opinion MUST be explicitly mentioned in the review. Do NOT infer by yourself.\<newline>'' @
           ''        - The entity can be more than one word long (e.g., "Chinese restaurant")\<newline>'' @
           ''        - The aspect/opinion can be more than one word long (e.g., "delicious and fantastic", "amazingly good")\<newline>'' @
           ''        - There could be more than one entity-aspect pair in the same review (e.g., "The pizza was terrific but the music was bad" -> {pizza: terrific, music: bad})\<newline>'' @
           ''        - If you can't find the entity or aspect/opinion, return "None".\<newline>'' @
           ''        - The review can be a full sentence but could also simply be a phrase or utterance.\<newline>'' @
           ''        - Return the response in the following JSON format: {incremental number: {"named_entity": str, "aspect": List[str]}\<newline>'' @
           ''    \<newline>'' @
           ''        Entity - what it is that the customer is referring to in his/her review (e.g., "Chinese restaurant", "service", "meal", "waitress", "food").\<newline>'' @
           ''        Aspect (opinion) - how the entity is described by the customer (e.g., "great", "amazing", "took too much time to prepare", "patient", "superb").\<newline>'' @
           ''        ''),
          (''\<newline>'' @
           ''        I acknowledge that I am a customer review analyzer who knows how to find search review for and find         both the named entity mentioned in the review and the aspect/opinion addressed to the named entity.         I understand your request and will accordingly look for and find both the named entity and the aspect/opinion\<newline>'' @
           ''        ''),
          (''\<newline>'' @
           ''        Below are a few examples for you to learn from (few-shot learning):\<newline>'' @
           ''        "The food is decent" --> food (entity), decent (aspect)\<newline>'' @
           ''        "The Steak Tartare was splendid" --> Steak Tartare (entity), splendid (aspect)\<newline>'' @
           ''        "The service is top-notch" --> service (entity), top-notch (aspect)\<newline>'' @
           ''        "I had the duck breast special on my last visit and it was incredible." --> duck breast special (entity), incredible (aspect)\<newline>'' @
           ''        "The hostess was extremely rude and offensive" --> hostess (entity), extremely rude and offensive (aspect)\<newline>'' @
           ''        "Chow fun was dry ; pork shu mai was more than usually greasy and had to share a table with loud and rude family." --> Chow fun (entity), dry (aspect); pork shu mai (entity), more than usually greasy (aspect); table (entity), had to share with loud and rude family (aspect)  \<newline>'' @
           ''        "The waiter took his time with the food" --> waiter (entity), took his time with the food (aspect)\<newline>'' @
           ''        "Ambience is delightful, service impeccable." --> ambience (entity), delightful (aspect); service (entity) impeccable (aspect)\<newline>'' @
           ''        "I won't come back again" --> None (entity), None (aspect)\<newline>'' @
           ''        "We, there were four of us, arrived at noon - the place was empty - and the staff acted like we were imposing on them and they were very rude." --> place (entity), empty (aspect); staff (entity) acted like we were imposing on them (aspect); staff (entity) very rude (aspect)\<newline>'' @
           ''        The food is very average . . .the Thai fusion stuff is a bit too sweet , every thing they serve is too sweet here. --> food (entity), very average (aspect); Thai fusion stuff (entity), a bit too sweet (aspect); everything they serve (entity), too sweet (aspect);\<newline>'' @
           ''        The only thing I moderately enjoyed was their Grilled Chicken special with Edamame Puree. --> Grilled Chicken special with Edamame Puree (entity), moderately enjoyed (aspect);\<newline>'' @
           ''        ''),
          (''\<newline>'' @
           ''        Please provide the review you want me to analyze.\<newline>'' @
           ''        ''),
          ''\<newline>        '' @ col_review r @ ''\<newline>        ''] \<and>
     count_occurrences ''-->'' (content (transcript (col_review r) ! 3)) = 12 \<and>
     (\<forall>self'. fst (order_chat_messages be self sent) = Inr self' \<longrightarrow>
        messages self' = transcript (col_review r) \<and>
        review self' = ''\<newline>        '' @ col_review r @ ''\<newline>        '')\<close>
proof -
  have sent: "snd (order_chat_messages be self sent) = sent @ [extraction_request (col_review r)]"
    by (simp add: order_chat_messages_row0 [OF assms])
  have msgs: "req_messages (extraction_request (col_review r)) = transcript (col_review r)"
    by (simp add: extraction_request_def)
  have shape: "length (transcript (col_review r)) = 6"
    "map role (transcript (col_review r)) =
       [''system'', ''user'', ''assistant'', ''user'', ''assistant'', ''user'']"
    "map content (transcript (col_review r)) =
       [system_prompt, initial_user_prompt, assistant_res_1, user_clarification_prompt,
        assistant_res_2, ''\<newline>        '' @ col_review r @ ''\<newline>        '']"
    by (simp_all add: transcript_def review_text_def)
  have fourth: "content (transcript (col_review r) ! 3) = user_clarification_prompt"
    by (simp add: transcript_def)
  have arrows: "count_occurrences ''-->'' (content (transcript (col_review r) ! 3)) = 12"
    by (simp only: fourth twelve_arrows)
  have kept: "\<forall>self'. fst (order_chat_messages be self sent) = Inr self' \<longrightarrow>
        messages self' = transcript (col_review r) \<and>
        review self' = ''\<newline>        '' @ col_review r @ ''\<newline>        ''"
    by (auto simp: order_chat_messages_row0 [OF assms] review_text_def
        split: option.splits list.splits)
  have named: "snd (order_chat_messages be self sent) = sent @ [extraction_request (col_review r)] \<and>
     req_messages (extraction_request (col_review r)) = transcript (col_review r) \<and>
     length (transcript (col_review r)) = 6 \<and>
     map role (transcript (col_review r)) =
       [''system'', ''user'', ''assistant'', ''user'', ''assistant'', ''user''] \<and>
     map content (transcript (col_review r)) =
       [system_prompt, initial_user_prompt, assistant_res_1, user_clarification_prompt,
        assistant_res_2, ''\<newline>        '' @ col_review r @ ''\<newline>        ''] \<and>
     count_occurrences ''-->'' (content (transcript (col_review r) ! 3)) = 12 \<and>
     (\<forall>self'. fst (order_chat_messages be self sent) = Inr self' \<longrightarrow>
        messages self' = transcript (col_review r) \<and>
        review self' = ''\<newline>        '' @ col_review r @ ''\<newline>        '')"
    by (intro conjI sent msgs shape arrows kept)
  then show ?thesis
    unfolding system_prompt_def initial_user_prompt_def assistant_res_1_def
      user_clarification_prompt_def assistant_res_2_def .
qed

theorem transcript_is_six_fixed_messages_witness:
  "df example_gen = example_row # [other_row] \<and>
   order_chat_messages mock_backend example_gen [] =
     (Inr example_gen, [extraction_request ''The food is decent'']) \<and>
   length (messages example_gen) = 6 \<and>
   map role (messages example_gen) =
     [''system'', ''user'', ''assistant'', ''user'', ''assistant'', ''user''] \<and>
   content (messages example_gen ! 5) = ''\<newline>        The food is decent\<newline>        '' \<and>
   count_occurrences ''-->'' (content (messages example_gen ! 3)) = 12"
proof -
  have row0: "df example_gen = example_row # [other_row]"
    by (simp add: example_gen_def example_table_def)
  have run: "order_chat_messages mock_backend example_gen [] =
     (Inr example_gen, [extraction_request ''The food is decent''])"
    by (simp only: order_chat_messages_row0 [OF row0])
      (simp add: mock_backend_def mock_create_def mock_response_def mock_literal_eval_def
        example_row_def example_gen_def)
  note inst = transcript_is_six_fixed_messages [OF row0, of mock_backend "[]"]
  note rest2 = inst [THEN conjunct2, THEN conjunct2]
  note len = rest2 [THEN conjunct1]
  note roles = rest2 [THEN conjunct2, THEN conjunct1]
  note rest5 = rest2 [THEN conjunct2, THEN conjunct2, THEN conjunct2]
  note arrows = rest5 [THEN conjunct1]
  note kept = rest5 [THEN conjunct2]
  from kept run have same: "messages example_gen = transcript (col_review example_row)"
    by simp
  have last: "content (transcript (col_review example_row) ! 5) =
                ''\<newline>        The food is decent\<newline>        ''"
    by (simp add: transcript_def review_text_def example_row_def)
  from row0 run len roles arrows last show ?thesis
    unfolding same by simp
qed

text \<open>
  Claim C6. \<^verbatim>\<open>get_completion_from_messages\<close> adds exactly one request to those issued, built
  from its arguments and the defaults of its signature, and when the endpoint answers with at
  least one choice it returns the content of the first one. The request of the extraction
  stage asks for the format \<^verbatim>\<open>json_object\<close> and carries the defaults: temperature 0,
  frequency penalty 0, one sample, the default model.
\<close>

theorem completion_client_issues_one_request:
  "snd (get_completion_from_messages be msgs model frequency_penalty n temperature
          response_format sent) =
     sent @ [\<lparr>req_messages = msgs,
              req_model = (case model of None \<Rightarrow> ''gpt-3.5-turbo-1106'' | Some m \<Rightarrow> m),
              req_frequency_penalty = (case frequency_penalty of None \<Rightarrow> Finite 0 | Some p \<Rightarrow> p),
              req_n = (case n of None \<Rightarrow> 1 | Some k \<Rightarrow> k),
              req_temperature = (case temperature of None \<Rightarrow> Finite 0 | Some t \<Rightarrow> t),
              req_response_format =
                ResponseFormat_value (case response_format of None \<Rightarrow> TEXT | Some f \<Rightarrow> f)\<rparr>] \<and>
   length (snd (get_completion_from_messages be msgs model frequency_penalty n temperature
                  response_format sent)) = length sent + 1 \<and>
   (create be \<lparr>req_messages = msgs,
               req_model = (case model of None \<Rightarrow> ''gpt-3.5-turbo-1106'' | Some m \<Rightarrow> m),
               req_frequency_penalty = (case frequency_penalty of None \<Rightarrow> Finite 0 | Some p \<Rightarrow> p),
               req_n = (case n of None \<Rightarrow> 1 | Some k \<Rightarrow> k),
               req_temperature = (case temperature of None \<Rightarrow> Finite 0 | Some t \<Rightarrow> t),
               req_response_format =
                 ResponseFormat_value (case response_format of None \<Rightarrow> TEXT | Some f \<Rightarrow> f)\<rparr> =
      Some resp \<and> choices resp = c # cs \<longrightarrow>
    fst (get_completion_from_messages be msgs model frequency_penalty n temperature
           response_format sent) = Inr (content (choice_message c))) \<and>
   (df self = r # rest \<longrightarrow>
    (\<exists>req. snd (order_chat_messages be self sent) = sent @ [req] \<and>
       req_response_format req = ResponseFormat_value JSON_OBJECT \<and>
       req_response_format req = [(''type'', ''json_object'')] \<and>
       req_temperature req = Finite 0 \<and>
       req_frequency_penalty req = Finite 0 \<and>
       req_n req = 1 \<and>
       req_model req = ''gpt-3.5-turbo-1106''))"
proof -
  have "\<exists>req. snd (order_chat_messages be self sent) = sent @ [req] \<and>
       req_response_format req = ResponseFormat_value JSON_OBJECT \<and>
       req_response_format req = [(''type'', ''json_object'')] \<and>
       req_temperature req = Finite 0 \<and>
       req_frequency_penalty req = Finite 0 \<and>
       req_n req = 1 \<and>
       req_model req = ''gpt-3.5-turbo-1106''"
    if "df self = r # rest"
    by (rule exI [of _ "extraction_request (col_review r)"])
      (simp add: order_chat_messages_row0 [OF that] extraction_request_def)
  then show ?thesis
    by (auto simp: get_completion_from_messages_def Let_def split: option.splits)
qed

theorem completion_client_issues_one_request_witness:
  "create mock_backend
     \<lparr>req_messages = transcript ''The food is decent'', req_model = ''gpt-3.5-turbo-1106'',
      req_frequency_penalty = Finite 0, req_n = 1, req_temperature = Finite 0,
      req_response_format = ResponseFormat_value JSON_OBJECT\<rparr> = Some mock_response \<and>
   choices mock_response =
     \<lparr>choice_message = \<lparr>role = ''assistant'', content = example_completion\<rparr>\<rparr> # [] \<and>
   get_completion_from_messages mock_backend (transcript ''The food is decent'')
     None None None None (Some JSON_OBJECT) [] =
     (Inr example_completion,
      [\<lparr>req_messages = transcript ''The food is decent'', req_model = ''gpt-3.5-turbo-1106'',
        req_frequency_penalty = Finite 0, req_n = 1, req_temperature = Finite 0,
        req_response_format = [(''type'', ''json_object'')]\<rparr>]) \<and>
   df example_gen = example_row # [other_row] \<and>
   snd (order_chat_messages mock_backend example_gen []) =
     [\<lparr>req_messages = transcript ''The food is decent'', req_model = ''gpt-3.5-turbo-1106'',
       req_frequency_penalty = Finite 0, req_n = 1, req_temperature = Finite 0,
       req_response_format = [(''type'', ''json_object'')]\<rparr>]"
proof -
  have row0: "df example_gen = example_row # [other_row]"
    by (simp add: example_gen_def example_table_def)
  have answer: "create mock_backend
     \<lparr>req_messages = transcript ''The food is decent'', req_model = ''gpt-3.5-turbo-1106'',
      req_frequency_penalty = Finite 0, req_n = 1, req_temperature = Finite 0,
      req_response_format = ResponseFormat_value JSON_OBJECT\<rparr> = Some mock_response"
    "choices mock_response =
       \<lparr>choice_message = \<lparr>role = ''assistant'', content = example_completion\<rparr>\<rparr> # []"
    by (simp_all add: mock_backend_def mock_create_def mock_response_def)
  note inst = completion_client_issues_one_request
    [of mock_backend "transcript ''The food is decent''" None None None None "Some JSON_OBJECT"
        "[]" mock_response
        "\<lparr>choice_message = \<lparr>role = ''assistant'', content = example_completion\<rparr>\<rparr>" "[]"
        example_gen example_row "[other_row]"]
  have sent: "snd (order_chat_messages mock_backend example_gen []) =
                [extraction_request ''The food is decent'']"
    by (simp add: order_chat_messages_row0 [OF row0] example_row_def)
  from inst answer row0 sent show ?thesis
    by (simp add: prod_eq_iff extraction_request_def)
qed

section \<open>Row 0 and the shape of the generation object\<close>

text \<open>
  Claim C7. For a table with a row 0, the constructor of the generation object gives what it
  gives for the table of that row alone, up to the table the object holds: the same requests,
  the same exception or the same object. The review it sends is the \<^verbatim>\<open>review\<close> cell of row 0
  inside the template, the true entity and the true aspect are the one-element lists of the
  \<^verbatim>\<open>true_entity\<close> and \<^verbatim>\<open>true_aspect\<close> cells of row 0. The whole pipeline, on a file that
  holds the table, likewise gives what it gives on a file that holds row 0 alone, up to the
  stored table: the same scores and keep-flags.
\<close>

theorem only_row_0_is_read:
  "ModelEntityAspectGeneration_init be (r # rest) sent =
     (map_sum id (\<lambda>g. g\<lparr>df := r # rest\<rparr>) (fst (ModelEntityAspectGeneration_init be [r] sent)),
      snd (ModelEntityAspectGeneration_init be [r] sent)) \<and>
   (ModelEntityAspectGeneration_init be (r # rest) sent = (Inr g, sent') \<longrightarrow>
      review g = ''\<newline>        '' @ col_review r @ ''\<newline>        '' \<and>
      sent' = sent @ [extraction_request (col_review r)] \<and>
      content (last (req_messages (extraction_request (col_review r)))) = review g \<and>
      true_entity g = [PStr (col_true_entity r)] \<and>
      true_aspect g = [PStr (col_true_aspect r)]) \<and>
   flow (be\<lparr>read_csv := \<lambda>path. Some (r # rest)\<rparr>) sent =
     (map_sum id
        (\<lambda>ev. ev\<lparr>ev_df := r # rest,
                  model_gen_object := (model_gen_object ev)\<lparr>df := r # rest\<rparr>\<rparr>)
        (fst (flow (be\<lparr>read_csv := \<lambda>path. Some [r]\<rparr>) sent)),
      snd (flow (be\<lparr>read_csv := \<lambda>path. Some [r]\<rparr>) sent))"
proof -
  have fields: "review g = ''\<newline>        '' @ col_review r @ ''\<newline>        '' \<and>
      sent' = sent @ [extraction_request (col_review r)] \<and>
      content (last (req_messages (extraction_request (col_review r)))) = review g \<and>
      true_entity g = [PStr (col_true_entity r)] \<and>
      true_aspect g = [PStr (col_true_aspect r)]"
    if "ModelEntityAspectGeneration_init be (r # rest) sent = (Inr g, sent')"
    using ModelEntityAspectGeneration_init_eq_Inr [OF that]
    by (auto simp: review_text_def extraction_request_def transcript_def)
  have pipeline: "flow (be\<lparr>read_csv := \<lambda>path. Some (r # rest)\<rparr>) sent =
     (map_sum id
        (\<lambda>ev. ev\<lparr>ev_df := r # rest,
                  model_gen_object := (model_gen_object ev)\<lparr>df := r # rest\<rparr>\<rparr>)
        (fst (flow (be\<lparr>read_csv := \<lambda>path. Some [r]\<rparr>) sent)),
      snd (flow (be\<lparr>read_csv := \<lambda>path. Some [r]\<rparr>) sent))"
  proof (cases "ModelEntityAspectGeneration_init be [r] sent")
    case (Pair res sent1)
    show ?thesis
    proof (cases res)
      case (Inl e)
      with Pair show ?thesis
        by (simp add: flow_def load_data_def ModelEntityAspectGeneration_init_read_csv
            ModelEntityAspectGeneration_init_other_rows [of be r rest sent])
    next
      case (Inr g1)
      with Pair show ?thesis
        by (simp add: flow_def load_data_def ModelEntityAspectGeneration_init_read_csv
            ModelEvaluation_init_read_csv
            ModelEntityAspectGeneration_init_other_rows [of be r rest sent]
            ModelEvaluation_init_other_table [of be "r # rest" g1 None "[r]"])
    qed
  qed
  from fields pipeline ModelEntityAspectGeneration_init_other_rows [of be r rest sent]
  show ?thesis by blast
qed

theorem only_row_0_is_read_witness:
  "ModelEntityAspectGeneration_init mock_backend (example_row # [other_row]) [] =
     (Inr example_gen, [extraction_request ''The food is decent'']) \<and>
   map_sum id (\<lambda>g. g\<lparr>df := example_row # [other_row]\<rparr>)
     (fst (ModelEntityAspectGeneration_init mock_backend [example_row] [])) = Inr example_gen \<and>
   review example_gen = ''\<newline>        The food is decent\<newline>        '' \<and>
   true_entity example_gen = [PStr ''food''] \<and>
   true_aspect example_gen = [PStr ''decent''] \<and>
   flow (mock_backend\<lparr>read_csv := \<lambda>path. Some (example_row # [other_row])\<rparr>) [] =
     (Inr example_ev, [extraction_request ''The food is decent'']) \<and>
   map_sum id
     (\<lambda>ev. ev\<lparr>ev_df := example_row # [other_row],
               model_gen_object := (model_gen_object ev)\<lparr>df := example_row # [other_row]\<rparr>\<rparr>)
     (fst (flow (mock_backend\<lparr>read_csv := \<lambda>path. Some [example_row]\<rparr>) [])) = Inr example_ev"
proof -
  have run: "flow (mock_backend\<lparr>read_csv := \<lambda>path. Some (example_row # [other_row])\<rparr>) [] =
     (Inr example_ev, [extraction_request ''The food is decent''])"
    using example_flow by (simp add: example_table_def)
  have built: "ModelEntityAspectGeneration_init mock_backend (example_row # [other_row]) [] =
     (Inr example_gen, [extraction_request ''The food is decent''])"
    using example_gen_constructed by (simp add: example_table_def)
  note inst = only_row_0_is_read
    [of mock_backend example_row "[other_row]" "[]" example_gen
        "[extraction_request ''The food is decent'']"]
  from inst built have "map_sum id (\<lambda>g. g\<lparr>df := example_row # [other_row]\<rparr>)
     (fst (ModelEntityAspectGeneration_init mock_backend [example_row] [])) = Inr example_gen"
    by simp
  moreover from inst built
  have "review example_gen = ''\<newline>        '' @ col_review example_row @ ''\<newline>        ''"
    "true_entity example_gen = [PStr (col_true_entity example_row)]"
    "true_aspect example_gen = [PStr (col_true_aspect example_row)]"
    by blast+
  moreover from inst run
  have "map_sum id
     (\<lambda>ev. ev\<lparr>ev_df := example_row # [other_row],
               model_gen_object := (model_gen_object ev)\<lparr>df := example_row # [other_row]\<rparr>\<rparr>)
     (fst (flow (mock_backend\<lparr>read_csv := \<lambda>path. Some [example_row]\<rparr>) [])) = Inr example_ev"
    by simp
  ultimately show ?thesis
    using built run by (simp add: example_row_def)
qed

text \<open>
  Claim C9. In every generation object that the constructor returns, \<^verbatim>\<open>predicted_entity\<close>,
  \<^verbatim>\<open>predicted_aspect\<close>, \<^verbatim>\<open>true_entity\<close> and \<^verbatim>\<open>true_aspect\<close> are lists of length one and
  \<^verbatim>\<open>generation\<close> is the pair of the element of \<^verbatim>\<open>predicted_entity\<close> and the element of
  \<^verbatim>\<open>predicted_aspect\<close>. The only later operation that receives the object, the construction
  of an evaluation, holds it unchanged.
\<close>

theorem constructed_generation_has_singleton_fields:
  assumes "ModelEntityAspectGeneration_init be table sent = (Inr g, sent')"
  shows
    "length (predicted_entity g) = 1 \<and> length (predicted_aspect g) = 1 \<and>
     length (true_entity g) = 1 \<and> length (true_aspect g) = 1 \<and>
     generation g = [predicted_entity g ! 0, predicted_aspect g ! 0] \<and>
     (\<forall>be' table' threshold_score ev.
        ModelEvaluation_init be' table' g threshold_score = Inr ev \<longrightarrow>
        model_gen_object ev = g)"
proof -
  from ModelEntityAspectGeneration_init_eq_Inr [OF assms]
  have "length (predicted_entity g) = 1" "length (predicted_aspect g) = 1"
    "length (true_entity g) = 1" "length (true_aspect g) = 1"
    "generation g = [predicted_entity g ! 0, predicted_aspect g ! 0]"
    by auto
  moreover have "model_gen_object ev = g"
    if "ModelEvaluation_init be' table' g threshold_score = Inr ev"
    for be' table' threshold_score ev
    using that by (auto simp: ModelEvaluation_init_eq_Inr)
  ultimately show ?thesis by blast
qed

theorem constructed_generation_has_singleton_fields_witness:
  "ModelEntityAspectGeneration_init mock_backend example_table [] =
     (Inr example_gen, [extraction_request ''The food is decent'']) \<and>
   length (predicted_entity example_gen) = 1 \<and> length (predicted_aspect example_gen) = 1 \<and>
   length (true_entity example_gen) = 1 \<and> length (true_aspect example_gen) = 1 \<and>
   generation example_gen = [predicted_entity example_gen ! 0, predicted_aspect example_gen ! 0] \<and>
   ModelEvaluation_init mock_backend example_table example_gen None = Inr example_ev \<and>
   model_gen_object example_ev = example_gen"
proof -
  note inst = constructed_generation_has_singleton_fields [OF example_gen_constructed]
  from inst example_ev_constructed have "model_gen_object example_ev = example_gen"
    by blast
  with inst example_gen_constructed example_ev_constructed show ?thesis
    by simp
qed

end
